theory Spec2Isabelle
  imports Complex_Main "HOL-Library.AList"
begin

section \<open>Rate limiting (server.js, checkRateLimit)\<close>

text \<open>
  \<^verbatim>\<open>
  const RATE_LIMIT = 5, RATE_WINDOW = 60000;
  const rateLimitMap = new Map();
  function checkRateLimit(wallet) {
    if (!wallet || wallet === 'SNAI') return { allowed: true };
    const now = Date.now();
    let ud = rateLimitMap.get(wallet) || { timestamps: [] };
    rateLimitMap.set(wallet, ud);
    ud.timestamps = ud.timestamps.filter(t => now - t < RATE_WINDOW);
    if (ud.timestamps.length >= RATE_LIMIT)
      return { allowed: false,
               waitTime: Math.ceil((RATE_WINDOW - (now - ud.timestamps[0])) / 1000) };
    ud.timestamps.push(now);
    return { allowed: true };
  }
  \<close>
  The argument is whatever the caller passes: a string, \<open>null\<close> or \<open>undefined\<close>.
  \<open>Date.now()\<close> is an explicit argument (integer milliseconds). The \<open>Map\<close> is only ever
  read with \<open>get\<close> and written with \<open>set\<close>, and only under string keys, so it is a
  partial function from strings to timestamp arrays.
\<close>

datatype jsval = Undefined | Null | Str string

fun falsy :: "jsval \<Rightarrow> bool" where
  "falsy Undefined = True"
| "falsy Null = True"
| "falsy (Str s) = (s = [])"

definition RATE_LIMIT :: nat where
  "RATE_LIMIT = 5"

definition RATE_WINDOW :: int where
  "RATE_WINDOW = 60000"

text \<open>\<open>Math.ceil (x / d)\<close> for an integer \<open>x\<close> and a positive integer \<open>d\<close>.\<close>

definition ceil_div :: "int \<Rightarrow> int \<Rightarrow> int" where
  "ceil_div x d = - ((- x) div d)"

datatype rate_result = Allowed | Rejected int

type_synonym rate_map = "string \<rightharpoonup> int list"

fun checkRateLimit :: "int \<Rightarrow> jsval \<Rightarrow> rate_map \<Rightarrow> rate_result \<times> rate_map" where
  "checkRateLimit now (Str w) m =
     (if w = [] \<or> w = ''SNAI'' then (Allowed, m)
      else
        let ud = (case m w of None \<Rightarrow> [] | Some ts \<Rightarrow> ts);
            ts = filter (\<lambda>t. now - t < RATE_WINDOW) ud
        in if length ts \<ge> RATE_LIMIT
           then (Rejected (ceil_div (RATE_WINDOW - (now - hd ts)) 1000), m(w \<mapsto> ts))
           else (Allowed, m(w \<mapsto> ts @ [now])))"
| "checkRateLimit now v m = (Allowed, m)"

text \<open>Successive calls for one wallet at the given clock readings, results in call order.\<close>

fun checkRateLimit_seq :: "jsval \<Rightarrow> int list \<Rightarrow> rate_map \<Rightarrow> rate_result list \<times> rate_map" where
  "checkRateLimit_seq w [] m = ([], m)"
| "checkRateLimit_seq w (t # ts) m =
     (case checkRateLimit t w m of (r, m') \<Rightarrow>
        (case checkRateLimit_seq w ts m' of (rs, m'') \<Rightarrow> (r # rs, m'')))"


section \<open>Broadcast channel (server.js, broadcast)\<close>

text \<open>
  \<^verbatim>\<open>
  const clients = new Map();               // ws -> { wallet }
  function broadcast(data) {
    const json = JSON.stringify(data);
    clients.forEach((_, ws) => { if (ws.readyState === WebSocket.OPEN) ws.send(json); });
  }
  \<close>
  A socket is its identity, its ready state and the frames written to it so far. The
  registry is the \<open>Map\<close> in insertion order. \<open>JSON.stringify\<close> is a parameter; the
  result records the values it was called on, next to the registry after the writes.
\<close>

datatype ready_state = CONNECTING | OPEN | CLOSING | CLOSED

record socket =
  sock_id :: nat
  readyState :: ready_state
  sent :: "string list"

record session =
  s_wallet :: string

type_synonym registry = "(socket \<times> session) list"

definition send :: "string \<Rightarrow> socket \<Rightarrow> socket" where
  "send frame ws = ws\<lparr>sent := sent ws @ [frame]\<rparr>"

definition broadcast :: "('e \<Rightarrow> string) \<Rightarrow> 'e \<Rightarrow> registry \<Rightarrow> 'e list \<times> registry" where
  "broadcast stringify data clients =
     (let json = stringify data
      in ([data],
          map (\<lambda>(ws, cd). (if readyState ws = OPEN then send json ws else ws, cd)) clients))"

section \<open>Posts and the hot score (server.js, calculateHotScore)\<close>

text \<open>
  A post carries the fields that the modelled code reads or writes. Human posts file the
  community under \<open>hive\<close>, scheduler posts under \<open>claw\<close>; \<open>wallet\<close> is a string or
  \<open>null\<close>. The voter object is an association list in insertion order.
\<close>

record comment =
  c_author :: string
  c_wallet :: "string option"
  c_text :: string
  c_time :: string
  c_timestamp :: int

record post =
  post_id :: int
  hive :: "string option"
  claw :: "string option"
  title :: string
  content :: string
  author :: string
  authorHandle :: "string option"
  wallet :: "string option"
  votes :: int
  voters :: "(string \<times> int) list"
  comments :: "comment list"
  time :: string
  timestamp :: int
  isAgentPost :: bool






section \<open>Strings\<close>

text \<open>
  Strings are lists of 8-bit characters: the code units below 256 of a JavaScript string.
  \<open>toLowerCase\<close> and \<open>toUpperCase\<close> act on the ASCII letters, \<open>trim\<close> and the class
  \<open>\s\<close> on the white space below 256, and \<open>.\<close> excludes line feed and carriage return.
\<close>

definition toLower :: "char \<Rightarrow> char" where
  "toLower c =
     (case map_of (zip ''ABCDEFGHIJKLMNOPQRSTUVWXYZ'' ''abcdefghijklmnopqrstuvwxyz'') c of
        Some d \<Rightarrow> d | None \<Rightarrow> c)"

definition toUpper :: "char \<Rightarrow> char" where
  "toUpper c =
     (case map_of (zip ''abcdefghijklmnopqrstuvwxyz'' ''ABCDEFGHIJKLMNOPQRSTUVWXYZ'') c of
        Some d \<Rightarrow> d | None \<Rightarrow> c)"

definition toLowerCase :: "string \<Rightarrow> string" where
  "toLowerCase s = map toLower s"

definition toUpperCase :: "string \<Rightarrow> string" where
  "toUpperCase s = map toUpper s"

definition is_space :: "char \<Rightarrow> bool" where
  "is_space c = (c \<in> set [CHR '' '', CHR 0x09, CHR 0x0A, CHR 0x0B, CHR 0x0C, CHR 0x0D, CHR 0xA0])"

definition is_line_terminator :: "char \<Rightarrow> bool" where
  "is_line_terminator c = (c = CHR 0x0A \<or> c = CHR 0x0D)"

definition trim :: "string \<Rightarrow> string" where
  "trim s = rev (dropWhile is_space (rev (dropWhile is_space s)))"

text \<open>\<open>s.slice(-4)\<close>: the last four characters, or all of a shorter string.\<close>

definition slice_last4 :: "string \<Rightarrow> string" where
  "slice_last4 s = drop (length s - 4) s"

section \<open>Parsing the model response (server.js, generateKrabPost)\<close>

text \<open>
  \<^verbatim>\<open>
  const tm = txt.match(/TITLE:\s*(.+)/i), cm = txt.match(/CONTENT:\s*([\s\S]+)/i);
  \<close>
  Both patterns are a literal marker, matched without regard to case, then greedy white
  space, then a non-empty capture. \<open>regex_search\<close> tries the start positions from the
  left, as \<open>String.prototype.match\<close> does; the two tail functions are the rest of each
  pattern at one position and return the capture group.
\<close>

definition starts_ci :: "string \<Rightarrow> string \<Rightarrow> bool" where
  "starts_ci marker s =
     (length marker \<le> length s \<and> toLowerCase (take (length marker) s) = toLowerCase marker)"

text \<open>
  \<open>\s*(.+)\<close>: the white space is taken as far as it goes; when nothing follows it on the
  line, the matcher backs off and the capture starts at a white-space character that is
  not a line terminator.
\<close>

fun title_tail :: "string \<Rightarrow> string option" where
  "title_tail [] = None"
| "title_tail (c # cs) =
     (if is_space c then
        (case title_tail cs of
           Some r \<Rightarrow> Some r
         | None \<Rightarrow>
             if is_line_terminator c then None
             else Some (takeWhile (\<lambda>x. \<not> is_line_terminator x) (c # cs)))
      else Some (takeWhile (\<lambda>x. \<not> is_line_terminator x) (c # cs)))"

text \<open>
  \<open>\s*([\s\S]+)\<close>: the capture is everything after the white space; when only white
  space follows the marker, the matcher backs off by one character.
\<close>

definition content_tail :: "string \<Rightarrow> string option" where
  "content_tail s =
     (if s = [] then None
      else if dropWhile is_space s = [] then Some [last s]
      else Some (dropWhile is_space s))"

fun regex_search :: "string \<Rightarrow> (string \<Rightarrow> string option) \<Rightarrow> string \<Rightarrow> string option" where
  "regex_search marker tail [] =
     (if starts_ci marker [] then tail (drop (length marker) []) else None)"
| "regex_search marker tail (c # cs) =
     (case (if starts_ci marker (c # cs) then tail (drop (length marker) (c # cs)) else None) of
        Some r \<Rightarrow> Some r
      | None \<Rightarrow> regex_search marker tail cs)"

definition match_title :: "string \<Rightarrow> string option" where
  "match_title txt = regex_search ''TITLE:'' title_tail txt"

definition match_content :: "string \<Rightarrow> string option" where
  "match_content txt = regex_search ''CONTENT:'' content_tail txt"



section \<open>Shared collections\<close>

text \<open>
  The collections are process-wide variables of server.js. Objects used as dictionaries
  (\<open>users\<close>, \<open>achievements\<close>, \<open>notifications\<close>, \<open>learning.topicInterests\<close>,
  \<open>registeredAgents\<close>, \<open>agentApiKeys\<close>) are association lists in insertion order;
  \<open>obj[k] = v\<close> is \<open>AList.update k v\<close>, which replaces in place or appends. Records
  carry the fields that the modelled code reads or writes; fields holding fixed text or
  flags (avatars, icons, \<open>isAI\<close>) are left out, and so are emoji inside message text.
\<close>

record user =
  u_wallet :: string
  username :: "string option"
  u_karma :: int
  joinedAt :: int
  u_postCount :: int
  u_commentCount :: int
  lastSeen :: int
  agentsCreated :: "int list"
  xp :: int

record achievement =
  ach_id :: string
  ach_name :: string
  unlockedAt :: int

record notification =
  n_id :: int
  n_type :: string
  n_content :: string
  relatedId :: "int option"
  n_read :: bool
  n_timestamp :: int

datatype ident = NumId int | StrId string

record activity =
  act_type :: string
  actor :: string
  actorWallet :: string
  target :: ident
  act_content :: string
  act_timestamp :: int

record agent =
  a_id :: ident
  name :: string
  handle :: string
  ticker :: "string option"
  description :: "string option"
  personality :: "string option"
  creator :: "string option"
  creatorWallet :: "string option"
  a_karma :: int
  a_postCount :: int
  a_commentCount :: int
  topics :: "string list"
  faction :: "string option"
  createdAt :: "int option"
  isUserCreated :: bool
  token :: "(string \<times> int) option"

text \<open>
  \<open>userAgents\<close> starts as the object \<open>{}\<close> and becomes an array when the database file
  is loaded (\<open>userAgents = agentData.agents || []\<close>).
\<close>

datatype user_agents = UAArray "agent list" | UAObject "(string \<times> agent) list"

record reg_agent =
  r_id :: string
  r_name :: string
  r_description :: string
  r_personality :: "string option"
  xHandle :: string
  r_karma :: int
  r_postCount :: int
  r_commentCount :: int
  r_topics :: "string list option"
  r_faction :: "string option"
  active :: bool
  lastActive :: "int option"

record key_data =
  k_agentId :: string
  k_createdAt :: int
  lastUsed :: "int option"

record server =
  posts :: "post list"
  nextPostId :: int
  users :: "(string \<times> user) list"
  achievements :: "(string \<times> achievement list) list"
  notifications :: "(string \<times> notification list) list"
  activityFeed :: "activity list"
  topicInterests :: "(string \<times> (string \<times> int) list) list"
  agents :: "agent list"
  userAgents :: user_agents
  nextAgentId :: int
  registeredAgents :: "(string \<times> reg_agent) list"
  agentApiKeys :: "(string \<times> key_data) list"
  rateLimitMap :: rate_map

text \<open>
  What a handler does to the outside is the list of its effects in program order: a call
  of \<open>broadcast\<close>, a \<open>ws.send\<close> on the requesting socket, a send to every open socket of
  one wallet (addNotification), the writes of the JSON files, and a timer. The tagged
  messages are the constructors of \<open>event\<close>. Console output is not modelled.
\<close>

datatype event =
    NewPostEv post
  | UpdatePostEv post
  | DeletePostEv int
  | StateEv nat nat
  | PostedEv string string
  | ActivityEv activity
  | AgentsEv "agent list"
  | NewAgentEv agent
  | NotificationEv notification
  | ErrorEv string
  | RateLimitedEv int
  | AgentCreatedEv agent

datatype effect =
    Broadcast event
  | Send event
  | SendToWallet string event
  | SaveState
  | SaveDatabase
  | SaveRegisteredAgents
  | SetTimeoutIntroPost agent nat

definition update_user :: "string \<Rightarrow> (user \<Rightarrow> user) \<Rightarrow> server \<Rightarrow> server" where
  "update_user w f s =
     (case map_of (users s) w of
        None \<Rightarrow> s
      | Some u \<Rightarrow> s\<lparr>users := AList.update w (f u) (users s)\<rparr>)"

definition getTotalComments :: "server \<Rightarrow> nat" where
  "getTotalComments s = sum_list (map (\<lambda>p. length (comments p)) (posts s))"

text \<open>
  \<^verbatim>\<open>
  function getDisplayName(wallet) {
    if (wallet === 'SNAI') return 'SNAI';
    const user = users[wallet];
    return user?.username || wallet.slice(0, 4) + '..' + wallet.slice(-4);
  }
  \<close>
\<close>

definition truthy_name :: "string option \<Rightarrow> string option" where
  "truthy_name n = (case n of None \<Rightarrow> None | Some x \<Rightarrow> if x = [] then None else Some x)"

definition getDisplayName :: "string \<Rightarrow> server \<Rightarrow> string" where
  "getDisplayName w s =
     (if w = ''SNAI'' then ''SNAI''
      else case truthy_name (case map_of (users s) w of None \<Rightarrow> None | Some u \<Rightarrow> username u) of
             Some n \<Rightarrow> n
           | None \<Rightarrow> take 4 w @ ''..'' @ slice_last4 w)"

text \<open>
  \<^verbatim>\<open>
  function addNotification(wallet, type, content, relatedId = null) {
    if (!wallet || wallet === 'SNAI') return;
    if (!notifications[wallet]) notifications[wallet] = [];
    const notif = { id: Date.now(), type, content, relatedId, read: false, timestamp: Date.now() };
    notifications[wallet].unshift(notif);
    notifications[wallet] = notifications[wallet].slice(0, 50);
    clients.forEach((data, ws) => {
      if (data.wallet === wallet && ws.readyState === WebSocket.OPEN)
        ws.send(JSON.stringify({ type: 'notification', notification: notif }));
    });
  }
  \<close>
  One clock reading \<open>now\<close> serves every \<open>Date.now()\<close> of a handler run.
\<close>

definition addNotification ::
  "int \<Rightarrow> string \<Rightarrow> string \<Rightarrow> string \<Rightarrow> int option \<Rightarrow> server \<Rightarrow> server \<times> effect list" where
  "addNotification now w ty text rel s =
     (if w = [] \<or> w = ''SNAI'' then (s, [])
      else
        let old = (case map_of (notifications s) w of None \<Rightarrow> [] | Some ns \<Rightarrow> ns);
            notif = \<lparr>n_id = now, n_type = ty, n_content = text, relatedId = rel,
                     n_read = False, n_timestamp = now\<rparr>
        in (s\<lparr>notifications := AList.update w (take 50 (notif # old)) (notifications s)\<rparr>,
            [SendToWallet w (NotificationEv notif)]))"

text \<open>
  \<^verbatim>\<open>
  function addActivity(type, actor, target, content) {
    const activity = { type,
      actor: typeof actor === 'string' ? (users[actor]?.username || actor.slice(0,4) + '..') : actor,
      actorWallet: actor, target, content, timestamp: Date.now() };
    activityFeed.unshift(activity);
    activityFeed = activityFeed.slice(0, 500);
    broadcast({ type: 'activity', activity });
  }
  \<close>
\<close>

definition addActivity ::
  "int \<Rightarrow> string \<Rightarrow> string \<Rightarrow> ident \<Rightarrow> string \<Rightarrow> server \<Rightarrow> server \<times> effect list" where
  "addActivity now ty act tgt text s =
     (let shown =
            (case truthy_name (case map_of (users s) act of None \<Rightarrow> None | Some u \<Rightarrow> username u) of
               Some n \<Rightarrow> n
             | None \<Rightarrow> take 4 act @ ''..'');
          activity = \<lparr>act_type = ty, actor = shown, actorWallet = act, target = tgt,
                      act_content = text, act_timestamp = now\<rparr>
      in (s\<lparr>activityFeed := take 500 (activity # activityFeed s)\<rparr>,
          [Broadcast (ActivityEv activity)]))"

text \<open>The table \<open>ACHIEVEMENTS\<close>: id, name and karma bonus of each entry.\<close>

definition ACHIEVEMENTS :: "(string \<times> string \<times> int) list" where
  "ACHIEVEMENTS =
     [(''first_post'', ''First Post!'', 5),
      (''first_comment'', ''Conversation Starter'', 3),
      (''first_vote'', ''Democracy!'', 2),
      (''karma_10'', ''Rising Star'', 10),
      (''karma_100'', ''Community Member'', 25),
      (''karma_500'', ''Swarm Elite'', 50),
      (''karma_1000'', ''Hornet Legend'', 100),
      (''deploy_agent'', ''Agent Creator'', 50),
      (''battle_winner'', ''Battle Champion'', 25),
      (''proposal_passed'', ''Legislator'', 50),
      (''chat_10'', ''SNAI Whisperer'', 15),
      (''posts_10'', ''Content Creator'', 20),
      (''posts_50'', ''Prolific Poster'', 50),
      (''comments_50'', ''Commentator'', 30),
      (''early_adopter'', ''Early Adopter'', 100),
      (''viral_post'', ''Viral!'', 75),
      (''follow_10'', ''Social Butterfly'', 10),
      (''followed_10'', ''Influencer'', 25)]"

text \<open>
  \<^verbatim>\<open>
  function unlockAchievement(wallet, achievementId) {
    if (!wallet) return null;
    if (!achievements[wallet]) achievements[wallet] = [];
    if (achievements[wallet].find(a => a.id === achievementId)) return null;
    const achDef = ACHIEVEMENTS.find(a => a.id === achievementId);
    if (!achDef) return null;
    const achievement = { id: achievementId, name: achDef.name, desc: achDef.desc,
                          icon: achDef.icon, unlockedAt: Date.now() };
    achievements[wallet].push(achievement);
    if (users[wallet]) {
      users[wallet].karma += achDef.karma;
      users[wallet].xp = (users[wallet].xp || 0) + achDef.karma * 10;
    }
    addNotification(wallet, 'achievement', `Achievement Unlocked: ${achDef.icon} ${achDef.name}!`);
    addActivity('achievement', wallet, achievementId, `unlocked ${achDef.name}`);
    saveDatabase();
    return achievement;
  }
  \<close>
\<close>

definition unlockAchievement ::
  "int \<Rightarrow> string \<Rightarrow> string \<Rightarrow> server \<Rightarrow> server \<times> effect list" where
  "unlockAchievement now w achievementId s =
     (if w = [] then (s, [])
      else
        let mine = (case map_of (achievements s) w of None \<Rightarrow> [] | Some xs \<Rightarrow> xs);
            s1 = (case map_of (achievements s) w of
                    None \<Rightarrow> s\<lparr>achievements := AList.update w [] (achievements s)\<rparr>
                  | Some xs \<Rightarrow> s)
        in if list_ex (\<lambda>a. ach_id a = achievementId) mine then (s1, [])
           else
             (case List.find (\<lambda>d. fst d = achievementId) ACHIEVEMENTS of
                None \<Rightarrow> (s1, [])
              | Some (aid, aname, akarma) \<Rightarrow>
                  let achievement = \<lparr>ach_id = achievementId, ach_name = aname, unlockedAt = now\<rparr>;
                      s2 = s1\<lparr>achievements := AList.update w (mine @ [achievement]) (achievements s1)\<rparr>;
                      s3 = update_user w
                             (\<lambda>u. u\<lparr>u_karma := u_karma u + akarma, xp := xp u + akarma * 10\<rparr>) s2
                  in (case addNotification now w ''achievement''
                             (''Achievement Unlocked: '' @ aname @ ''!'') None s3 of
                        (s4, fx4) \<Rightarrow>
                          (case addActivity now ''achievement'' w (StrId achievementId)
                                  (''unlocked '' @ aname) s4 of
                             (s5, fx5) \<Rightarrow> (s5, fx4 @ fx5 @ [SaveDatabase])))))"

text \<open>
  \<^verbatim>\<open>
  function getUser(wallet) {
    if (!wallet) return null;
    if (!users[wallet]) {
      users[wallet] = { wallet, username: null, karma: 0, joinedAt: Date.now(), postCount: 0,
                        commentCount: 0, lastSeen: Date.now(), ..., agentsCreated: [], ..., xp: 0 };
      if (Object.keys(users).length <= 1000) unlockAchievement(wallet, 'early_adopter');
      saveDatabase();
    } else {
      users[wallet].lastSeen = Date.now();
    }
    return users[wallet];
  }
  \<close>
  The returned reference is \<open>users[wallet]\<close> of the new state, and \<open>null\<close> exactly for a
  falsy wallet; callers that write through it use \<open>update_user\<close>.
\<close>

definition getUser :: "int \<Rightarrow> string \<Rightarrow> server \<Rightarrow> server \<times> effect list" where
  "getUser now w s =
     (if w = [] then (s, [])
      else
        (case map_of (users s) w of
           None \<Rightarrow>
             let u = \<lparr>u_wallet = w, username = None, u_karma = 0, joinedAt = now,
                      u_postCount = 0, u_commentCount = 0, lastSeen = now,
                      agentsCreated = [], xp = 0\<rparr>;
                 s1 = s\<lparr>users := AList.update w u (users s)\<rparr>
             in (case (if length (users s1) \<le> 1000
                       then unlockAchievement now w ''early_adopter'' s1 else (s1, [])) of
                   (s2, fx) \<Rightarrow> (s2, fx @ [SaveDatabase]))
         | Some u \<Rightarrow> (s\<lparr>users := AList.update w (u\<lparr>lastSeen := now\<rparr>) (users s)\<rparr>, [])))"

text \<open>
  \<^verbatim>\<open>
  function trackTopicInterest(wallet, topic) {
    if (!wallet || !topic) return;
    if (!learning.topicInterests[wallet]) learning.topicInterests[wallet] = {};
    learning.topicInterests[wallet][topic] = (learning.topicInterests[wallet][topic] || 0) + 1;
    saveDatabase();
  }
  \<close>
\<close>

definition trackTopicInterest :: "string \<Rightarrow> string option \<Rightarrow> server \<Rightarrow> server \<times> effect list" where
  "trackTopicInterest w topic s =
     (case truthy_name topic of
        None \<Rightarrow> (s, [])
      | Some t \<Rightarrow>
          if w = [] then (s, [])
          else
            let mine = (case map_of (topicInterests s) w of None \<Rightarrow> [] | Some xs \<Rightarrow> xs);
                n = (case map_of mine t of None \<Rightarrow> 0 | Some k \<Rightarrow> k)
            in (s\<lparr>topicInterests := AList.update w (AList.update t (n + 1) mine) (topicInterests s)\<rparr>,
                [SaveDatabase]))"


section \<open>Live-update channel: the message handler (server.js, ws.on('message'))\<close>

text \<open>
  \<^verbatim>\<open>
  ws.on('message', async (data) => {
    try {
      const msg = JSON.parse(data);
      const cd = clients.get(ws);
      const uw = cd?.wallet;
      const user = getUser(uw);
      if (msg.type === 'set_username') { ... }
      ...
      else if (msg.type === 'new_post') { ... }
      else if (msg.type === 'vote') { ... }
      ...
      else if (msg.type === 'delete_post') { ... }
      ...
      else if (msg.type === 'create_agent') { ... }
      ...
    } catch (e) {}
  });
  \<close>
  \<open>uw\<close> is the wallet string of the session (\<open>''\<close> when the client gave none). The
  message types modelled are the four below; \<open>OtherMsg\<close> stands for a type no branch
  accepts. Fields of a message that may be absent are options; ids and vote directions
  are integers.
\<close>

record agent_data =
  d_name :: "string option"
  d_ticker :: "string option"
  d_description :: "string option"
  d_personality :: "string option"
  d_deployToken :: bool

datatype message =
    NewPostMsg "string option" "string option" "string option"
  | VoteMsg int int
  | DeletePostMsg int
  | CreateAgentMsg agent_data
  | OtherMsg

fun update_first :: "('a \<Rightarrow> bool) \<Rightarrow> ('a \<Rightarrow> 'a) \<Rightarrow> 'a list \<Rightarrow> 'a list" where
  "update_first P f [] = []"
| "update_first P f (x # xs) = (if P x then f x # xs else x # update_first P f xs)"

fun findIndex :: "('a \<Rightarrow> bool) \<Rightarrow> 'a list \<Rightarrow> nat option" where
  "findIndex P [] = None"
| "findIndex P (x # xs) =
     (if P x then Some 0 else (case findIndex P xs of None \<Rightarrow> None | Some i \<Rightarrow> Some (Suc i)))"

text \<open>
  \<^verbatim>\<open>
  else if (msg.type === 'new_post') {
    if (!uw) { ws.send(JSON.stringify({ type: 'error', message: 'Connect wallet' })); return; }
    const rc = checkRateLimit(uw);
    if (!rc.allowed) { ws.send(JSON.stringify({ type: 'rate_limited', waitTime: rc.waitTime })); return; }
    const post = { id: nextPostId++, hive: msg.hive || 'c/general',
                   title: (msg.title || 'Untitled').slice(0, 200),
                   content: (msg.content || '').slice(0, 2000),
                   author: getDisplayName(uw), wallet: uw, votes: 1, voters: { [uw]: 1 },
                   comments: [], time: 'just now', timestamp: Date.now() };
    posts.unshift(post);
    posts = posts.slice(0, 200);
    if (user) { user.postCount++; user.karma++; }
    trackTopicInterest(uw, msg.hive);
    broadcast({ type: 'new_post', post });
    broadcast({ type: 'state', state: { posts: posts.length, comments: getTotalComments() } });
    saveState(); saveDatabase();
  }
  \<close>
\<close>

definition or_default :: "string option \<Rightarrow> string \<Rightarrow> string" where
  "or_default x d = (case truthy_name x of None \<Rightarrow> d | Some v \<Rightarrow> v)"

definition human_post ::
  "int \<Rightarrow> string \<Rightarrow> string option \<Rightarrow> string option \<Rightarrow> string option \<Rightarrow> server \<Rightarrow> post" where
  "human_post now uw m_hive m_title m_content s =
     \<lparr>post_id = nextPostId s, hive = Some (or_default m_hive ''c/general''), claw = None,
      title = take 200 (or_default m_title ''Untitled''),
      content = take 2000 (or_default m_content []),
      author = getDisplayName uw s, authorHandle = None, wallet = Some uw,
      votes = 1, voters = [(uw, 1)], comments = [], time = ''just now'',
      timestamp = now, isAgentPost = False\<rparr>"

definition new_post ::
  "int \<Rightarrow> string \<Rightarrow> string option \<Rightarrow> string option \<Rightarrow> string option \<Rightarrow> server
     \<Rightarrow> server \<times> effect list" where
  "new_post now uw m_hive m_title m_content s =
     (if uw = [] then (s, [Send (ErrorEv ''Connect wallet'')])
      else
        (case checkRateLimit now (Str uw) (rateLimitMap s) of
           (Rejected waitTime, m) \<Rightarrow> (s\<lparr>rateLimitMap := m\<rparr>, [Send (RateLimitedEv waitTime)])
         | (Allowed, m) \<Rightarrow>
             let s1 = s\<lparr>rateLimitMap := m\<rparr>;
                 p = human_post now uw m_hive m_title m_content s1;
                 s2 = s1\<lparr>nextPostId := nextPostId s1 + 1, posts := take 200 (p # posts s1)\<rparr>;
                 s3 = update_user uw
                        (\<lambda>u. u\<lparr>u_postCount := u_postCount u + 1, u_karma := u_karma u + 1\<rparr>) s2
             in (case trackTopicInterest uw m_hive s3 of
                   (s4, fx) \<Rightarrow>
                     (s4, fx @ [Broadcast (NewPostEv p),
                                Broadcast (StateEv (length (posts s4)) (getTotalComments s4)),
                                SaveState, SaveDatabase]))))"

text \<open>
  \<^verbatim>\<open>
  else if (msg.type === 'vote') {
    if (!uw) { ws.send(JSON.stringify({ type: 'error', message: 'Connect wallet' })); return; }
    const post = posts.find(p => p.id === msg.postId);
    if (post) {
      if (!post.voters) post.voters = {};
      const cv = post.voters[uw] || 0;
      const nv = cv === msg.direction ? 0 : msg.direction;
      post.votes = (post.votes || 0) - cv + nv;
      post.voters[uw] = nv;
      if (post.wallet && users[post.wallet]) users[post.wallet].karma += (nv - cv);
      broadcast({ type: 'update_post', post });
      saveState(); saveDatabase();
    }
  }
  \<close>
\<close>

definition voter_entry :: "post \<Rightarrow> string \<Rightarrow> int" where
  "voter_entry p k = (case map_of (voters p) k of None \<Rightarrow> 0 | Some v \<Rightarrow> v)"

definition vote :: "string \<Rightarrow> int \<Rightarrow> int \<Rightarrow> server \<Rightarrow> server \<times> effect list" where
  "vote uw postId direction s =
     (if uw = [] then (s, [Send (ErrorEv ''Connect wallet'')])
      else
        (case List.find (\<lambda>p. post_id p = postId) (posts s) of
           None \<Rightarrow> (s, [])
         | Some p \<Rightarrow>
             let cv = voter_entry p uw;
                 nv = (if cv = direction then 0 else direction);
                 p' = p\<lparr>votes := votes p - cv + nv, voters := AList.update uw nv (voters p)\<rparr>;
                 s1 = s\<lparr>posts := update_first (\<lambda>q. post_id q = postId) (\<lambda>q. p') (posts s)\<rparr>;
                 s2 = (case wallet p of
                         None \<Rightarrow> s1
                       | Some pw \<Rightarrow>
                           if pw = [] then s1
                           else update_user pw (\<lambda>u. u\<lparr>u_karma := u_karma u + (nv - cv)\<rparr>) s1)
             in (s2, [Broadcast (UpdatePostEv p'), SaveState, SaveDatabase])))"

text \<open>
  \<^verbatim>\<open>
  else if (msg.type === 'delete_post') {
    const idx = posts.findIndex(p => p.id === msg.postId);
    if (idx !== -1 && posts[idx].wallet === uw) {
      posts.splice(idx, 1);
      broadcast({ type: 'delete_post', postId: msg.postId });
      broadcast({ type: 'state', state: { posts: posts.length, comments: getTotalComments() } });
      saveState();
    }
  }
  \<close>
\<close>

definition delete_post :: "string \<Rightarrow> int \<Rightarrow> server \<Rightarrow> server \<times> effect list" where
  "delete_post uw postId s =
     (case findIndex (\<lambda>p. post_id p = postId) (posts s) of
        None \<Rightarrow> (s, [])
      | Some idx \<Rightarrow>
          if wallet (posts s ! idx) = Some uw then
            let s1 = s\<lparr>posts := take idx (posts s) @ drop (Suc idx) (posts s)\<rparr>
            in (s1, [Broadcast (DeletePostEv postId),
                     Broadcast (StateEv (length (posts s1)) (getTotalComments s1)),
                     SaveState])
          else (s, []))"

section \<open>Agent creation (server.js, createUserAgent)\<close>

text \<open>
  \<^verbatim>\<open>
  function registeredAgentToInternal(regAgent) {
    return { id: regAgent.id, name: regAgent.name, handle: regAgent.xHandle.replace(/^@/, ''),
             karma: regAgent.karma || 10, ..., topics: regAgent.topics || ['general', 'discussion'],
             postCount: regAgent.postCount || 0, commentCount: regAgent.commentCount || 0, ...,
             description: regAgent.description,
             personality: regAgent.personality ||
               `You are ${regAgent.name}, an AI agent. ${regAgent.description}. Be helpful and engaging.`,
             faction: regAgent.faction || 'The Collective', ... };
  }
  function getAllAgentsWithRegistered() {
    const externalAgents = getActiveRegisteredAgents().map(registeredAgentToInternal);
    const userAgentsList = Array.isArray(userAgents) ? userAgents : Object.values(userAgents);
    return [...agents, ...userAgentsList, ...externalAgents]
             .sort((a, b) => (b.karma || 0) - (a.karma || 0));
  }
  \<close>
\<close>

definition registeredAgentToInternal :: "reg_agent \<Rightarrow> agent" where
  "registeredAgentToInternal r =
     \<lparr>a_id = StrId (r_id r), name = r_name r,
      handle = (case xHandle r of [] \<Rightarrow> [] | c # cs \<Rightarrow> if c = CHR ''@'' then cs else c # cs),
      ticker = None, description = Some (r_description r),
      personality = Some (or_default (r_personality r)
                            (''You are '' @ r_name r @ '', an AI agent. '' @ r_description r
                               @ ''. Be helpful and engaging.'')),
      creator = None, creatorWallet = None,
      a_karma = (if r_karma r = 0 then 10 else r_karma r),
      a_postCount = r_postCount r, a_commentCount = r_commentCount r,
      topics = (case r_topics r of None \<Rightarrow> [''general'', ''discussion''] | Some ts \<Rightarrow> ts),
      faction = Some (or_default (r_faction r) ''The Collective''),
      createdAt = None, isUserCreated = False, token = None\<rparr>"

definition userAgentsList :: "user_agents \<Rightarrow> agent list" where
  "userAgentsList ua = (case ua of UAArray xs \<Rightarrow> xs | UAObject kvs \<Rightarrow> map snd kvs)"

definition getAllAgentsWithRegistered :: "server \<Rightarrow> agent list" where
  "getAllAgentsWithRegistered s =
     (let externalAgents =
            map registeredAgentToInternal (filter active (map snd (registeredAgents s)))
      in sort_key (\<lambda>a. - a_karma a) (agents s @ userAgentsList (userAgents s) @ externalAgents))"

text \<open>
  \<^verbatim>\<open>
  async function createUserAgent(wallet, data) {
    if (!wallet) return { error: 'Connect wallet' };
    const user = getUser(wallet);
    if ((user.karma || 0) < 50) return { error: 'Need 50+ karma to create agents' };
    if (!data.name || data.name.length < 2 || data.name.length > 20)
      return { error: 'Name must be 2-20 characters' };
    if (!data.ticker || data.ticker.length < 2 || data.ticker.length > 6)
      return { error: 'Ticker must be 2-6 characters' };
    if (!data.description || data.description.length < 10)
      return { error: 'Description must be 10+ characters' };
    const handle = data.name.toLowerCase().replace(/[^a-z0-9]/g, '_');
    const allAgents = getAllAgentsWithRegistered();
    if (allAgents.find(a => a.name.toLowerCase() === data.name.toLowerCase() || a.handle === handle))
      return { error: 'Agent name already exists' };
    const personality = data.personality ||
      `You are ${data.name}. ${data.description} Stay in character. Be helpful and engaging.`;
    const newAgent = { id: nextAgentId++, name: data.name, handle: handle,
      ticker: '$' + data.ticker.toUpperCase(), description: data.description,
      personality: personality, ..., creator: getDisplayName(wallet), creatorWallet: wallet,
      karma: 10, postCount: 0, commentCount: 0, followers: [], createdAt: Date.now(), ...,
      token: data.deployToken ? { ca: generateFakeCA(), launched: Date.now() } : null };
    userAgents.push(newAgent);
    if (!user.agentsCreated) user.agentsCreated = [];
    user.agentsCreated.push(newAgent.id);
    user.karma += 20;
    unlockAchievement(wallet, 'deploy_agent');
    addActivity('agent_created', wallet, newAgent.id,
                `deployed AI agent ${newAgent.name} (${newAgent.ticker})`);
    broadcast({ type: 'new_agent', agent: newAgent });
    broadcast({ type: 'agents', agents: [...agents, ...userAgents].slice(0, 20) });
    saveDatabase();
    setTimeout(() => generateAgentIntroPost(newAgent), 2000);
    return { success: true, agent: newAgent };
  }
  \<close>
  The body has no \<open>await\<close>, so it runs in one turn. \<open>ca\<close> is the string that
  \<open>generateFakeCA()\<close> draws. \<open>userAgents.push\<close> on the object form of \<open>userAgents\<close> is a
  TypeError, raised after \<open>nextAgentId++\<close>: the result \<open>CreateThrew\<close>.
\<close>

datatype create_result = CreateError string | CreateOk agent | CreateThrew

definition invalid_field :: "string option \<Rightarrow> nat \<Rightarrow> nat option \<Rightarrow> bool" where
  "invalid_field x lo hi =
     (case truthy_name x of
        None \<Rightarrow> True
      | Some v \<Rightarrow> length v < lo \<or> (case hi of None \<Rightarrow> False | Some h \<Rightarrow> length v > h))"

definition make_handle :: "string \<Rightarrow> string" where
  "make_handle nm =
     map (\<lambda>c. if c \<in> set ''abcdefghijklmnopqrstuvwxyz0123456789'' then c else CHR ''_'')
         (toLowerCase nm)"

definition name_exists :: "string \<Rightarrow> agent list \<Rightarrow> bool" where
  "name_exists nm allAgents =
     list_ex (\<lambda>a. toLowerCase (name a) = toLowerCase nm \<or> handle a = make_handle nm) allAgents"

definition createUserAgent ::
  "int \<Rightarrow> string \<Rightarrow> string \<Rightarrow> agent_data \<Rightarrow> server \<Rightarrow> create_result \<times> server \<times> effect list" where
  "createUserAgent now ca w data s =
     (if w = [] then (CreateError ''Connect wallet'', s, [])
      else
        (case getUser now w s of
           (s1, fx1) \<Rightarrow>
             if (case map_of (users s1) w of None \<Rightarrow> 0 | Some u \<Rightarrow> u_karma u) < 50
             then (CreateError ''Need 50+ karma to create agents'', s1, fx1)
             else if invalid_field (d_name data) 2 (Some 20)
             then (CreateError ''Name must be 2-20 characters'', s1, fx1)
             else if invalid_field (d_ticker data) 2 (Some 6)
             then (CreateError ''Ticker must be 2-6 characters'', s1, fx1)
             else if invalid_field (d_description data) 10 None
             then (CreateError ''Description must be 10+ characters'', s1, fx1)
             else
               let nm = or_default (d_name data) [];
                   tk = or_default (d_ticker data) [];
                   desc = or_default (d_description data) []
               in if name_exists nm (getAllAgentsWithRegistered s1)
                  then (CreateError ''Agent name already exists'', s1, fx1)
                  else
                    let newAgent =
                          \<lparr>a_id = NumId (nextAgentId s1), name = nm, handle = make_handle nm,
                           ticker = Some (''$'' @ toUpperCase tk), description = Some desc,
                           personality = Some (or_default (d_personality data)
                             (''You are '' @ nm @ ''. '' @ desc
                                @ '' Stay in character. Be helpful and engaging.'')),
                           creator = Some (getDisplayName w s1), creatorWallet = Some w,
                           a_karma = 10, a_postCount = 0, a_commentCount = 0, topics = [],
                           faction = None, createdAt = Some now, isUserCreated = True,
                           token = (if d_deployToken data then Some (ca, now) else None)\<rparr>;
                        s2 = s1\<lparr>nextAgentId := nextAgentId s1 + 1\<rparr>
                    in (case userAgents s2 of
                          UAObject kvs \<Rightarrow> (CreateThrew, s2, fx1)
                        | UAArray xs \<Rightarrow>
                            let s3 = s2\<lparr>userAgents := UAArray (xs @ [newAgent])\<rparr>;
                                s4 = update_user w
                                       (\<lambda>u. u\<lparr>agentsCreated := agentsCreated u @ [nextAgentId s1],
                                              u_karma := u_karma u + 20\<rparr>) s3
                            in (case unlockAchievement now w ''deploy_agent'' s4 of
                                  (s5, fx5) \<Rightarrow>
                                    (case addActivity now ''agent_created'' w (NumId (nextAgentId s1))
                                            (''deployed AI agent '' @ nm @ '' ($''
                                               @ toUpperCase tk @ '')'') s5 of
                                       (s6, fx6) \<Rightarrow>
                                         (CreateOk newAgent, s6,
                                          fx1 @ fx5 @ fx6 @
                                          [Broadcast (NewAgentEv newAgent),
                                           Broadcast (AgentsEv (take 20 (agents s6 @ xs @ [newAgent]))),
                                           SaveDatabase,
                                           SetTimeoutIntroPost newAgent 2000]))))))"

text \<open>
  \<^verbatim>\<open>
  else if (msg.type === 'create_agent') {
    if (!uw) { ws.send(JSON.stringify({ type: 'error', message: 'Connect wallet' })); return; }
    const result = await createUserAgent(uw, msg.data);
    if (result.error) ws.send(JSON.stringify({ type: 'error', message: result.error }));
    else ws.send(JSON.stringify({ type: 'agent_created', agent: result.agent }));
  }
  \<close>
  A TypeError inside \<open>createUserAgent\<close> rejects the awaited promise and is swallowed by
  the handler's \<open>catch\<close>.
\<close>

definition create_agent ::
  "int \<Rightarrow> string \<Rightarrow> string \<Rightarrow> agent_data \<Rightarrow> server \<Rightarrow> server \<times> effect list" where
  "create_agent now ca uw data s =
     (if uw = [] then (s, [Send (ErrorEv ''Connect wallet'')])
      else
        (case createUserAgent now ca uw data s of
           (CreateError e, s', fx) \<Rightarrow> (s', fx @ [Send (ErrorEv e)])
         | (CreateOk a, s', fx) \<Rightarrow> (s', fx @ [Send (AgentCreatedEv a)])
         | (CreateThrew, s', fx) \<Rightarrow> (s', fx)))"

text \<open>The handler: \<open>getUser(uw)\<close> first, then the branch of the message type.\<close>

definition ws_message ::
  "int \<Rightarrow> string \<Rightarrow> string \<Rightarrow> message \<Rightarrow> server \<Rightarrow> server \<times> effect list" where
  "ws_message now ca uw msg s =
     (case getUser now uw s of
        (s1, fx1) \<Rightarrow>
          (case (case msg of
                   NewPostMsg h t c \<Rightarrow> new_post now uw h t c s1
                 | VoteMsg postId direction \<Rightarrow> vote uw postId direction s1
                 | DeletePostMsg postId \<Rightarrow> delete_post uw postId s1
                 | CreateAgentMsg data \<Rightarrow> create_agent now ca uw data s1
                 | OtherMsg \<Rightarrow> (s1, [])) of
             (s2, fx2) \<Rightarrow> (s2, fx1 @ fx2)))"


section \<open>Scheduler: post generation (server.js, generateKrabPost)\<close>

text \<open>
  \<^verbatim>\<open>
  async function generateKrabPost() {
    try {
      const agent = agents[Math.floor(Math.random() * agents.length)];
      ... // t = the drawn topic { hive, topic }; systemPrompt built from agent and t
      const r = await anthropic.messages.create({ ... });
      const txt = r.content[0].text;
      const tm = txt.match(/TITLE:\s*(.+)/i), cm = txt.match(/CONTENT:\s*([\s\S]+)/i);
      if (tm && cm) {
        const title = tm[1].trim().slice(0, 200);
        const content = cm[1].trim().slice(0, 2000);
        const post = { id: nextPostId++, claw: t.hive, title: title, content: content,
                       author: agent.name, authorHandle: agent.handle, wallet: agent.name,
                       votes: Math.floor(Math.random() * 20) + 1, voters: {}, comments: [],
                       time: 'just now', timestamp: Date.now(), isAgentPost: true };
        agent.topics = [t.hive, ...(agent.topics || [])].slice(0, 20);
        agent.postCount = (agent.postCount || 0) + 1;
        agent.karma = (agent.karma || 0) + 5;
        posts.unshift(post);
        posts = posts.slice(0, 200);
        broadcast({ type: 'new_post', post });
        broadcast({ type: 'activity', user: agent.name, action: `posted "${title.slice(0,25)}..."` });
        broadcast({ type: 'agents', agents: agents.slice(0, 10) });
        saveState();
        saveDatabase();
      }
    } catch (e) { console.error('Post generation error:', e.message); }
  }
  \<close>
  The random draws are arguments: the index \<open>ai\<close> of the agent, the hive \<open>t_hive\<close> of the
  drawn topic and \<open>rv = Math.floor(Math.random() * 20)\<close>. The outcome of the awaited call
  is an argument as well: the text, or a failure (a rejected call, or a response without
  \<open>content[0].text\<close>), which lands in the \<open>catch\<close>. With no agent at the index the first
  use of \<open>agent\<close> is a TypeError, caught the same way. The state is the one found when
  the call returns.
\<close>

datatype llm_outcome = LlmText string | LlmFailed

definition krab_post :: "agent \<Rightarrow> string \<Rightarrow> nat \<Rightarrow> int \<Rightarrow> string \<Rightarrow> string \<Rightarrow> server \<Rightarrow> post" where
  "krab_post agent t_hive rv now ttl body s =
     \<lparr>post_id = nextPostId s, hive = None, claw = Some t_hive, title = ttl, content = body,
      author = name agent, authorHandle = Some (handle agent), wallet = Some (name agent),
      votes = int rv + 1, voters = [], comments = [], time = ''just now'', timestamp = now,
      isAgentPost = True\<rparr>"

definition generateKrabPost ::
  "nat \<Rightarrow> string \<Rightarrow> nat \<Rightarrow> int \<Rightarrow> llm_outcome \<Rightarrow> server \<Rightarrow> server \<times> effect list" where
  "generateKrabPost ai t_hive rv now outcome s =
     (if length (agents s) \<le> ai then (s, [])
      else
        (case outcome of
           LlmFailed \<Rightarrow> (s, [])
         | LlmText txt \<Rightarrow>
             (case (match_title txt, match_content txt) of
                (Some tm, Some cm) \<Rightarrow>
                  let agent = agents s ! ai;
                      ttl = take 200 (trim tm);
                      body = take 2000 (trim cm);
                      p = krab_post agent t_hive rv now ttl body s;
                      agent' = agent\<lparr>topics := take 20 (t_hive # topics agent),
                                      a_postCount := a_postCount agent + 1,
                                      a_karma := a_karma agent + 5\<rparr>;
                      s1 = s\<lparr>nextPostId := nextPostId s + 1,
                             agents := (agents s)[ai := agent'],
                             posts := take 200 (p # posts s)\<rparr>
                  in (s1, [Broadcast (NewPostEv p),
                           Broadcast (PostedEv (name agent)
                                        (''posted '' @ [CHR 0x22] @ take 25 ttl @ ''...'' @ [CHR 0x22])),
                           Broadcast (AgentsEv (take 10 (agents s1))),
                           SaveState, SaveDatabase])
              | _ \<Rightarrow> (s, []))))"

section \<open>Scheduler: the introduction post of a new agent (server.js, generateAgentIntroPost)\<close>

text \<open>
  \<^verbatim>\<open>
  async function generateAgentIntroPost(agent) {
    try {
      const prompt = `${agent.personality}\n\nWrite a SHORT introduction post ...`;
      const response = await anthropic.messages.create({ ... });
      const content = response.content[0].text;
      const post = { id: nextPostId++, hive: 'c/agents',
                     title: `${agent.name} is now online! ${agent.ticker}`, content: content,
                     author: agent.name, wallet: null, agentId: agent.id, votes: 1, voters: {},
                     comments: [], time: 'just now', timestamp: Date.now(), isAgentPost: true };
      posts.unshift(post);
      agent.postCount++;
      broadcast({ type: 'new_post', post });
      saveState();
      saveDatabase();
    } catch (e) { console.error('Agent intro post error:', e); }
  }
  \<close>
  This is what the timer set at the end of \<open>createUserAgent\<close> runs. Its argument is the
  agent object that was pushed on \<open>userAgents\<close>: the write to \<open>agent.postCount\<close> lands on
  the first entry of that array with the agent's id (ids come from \<open>nextAgentId++\<close>).
\<close>

definition intro_post :: "agent \<Rightarrow> int \<Rightarrow> string \<Rightarrow> server \<Rightarrow> post" where
  "intro_post agent now body s =
     \<lparr>post_id = nextPostId s, hive = Some ''c/agents'', claw = None,
      title = name agent @ '' is now online! ''
                @ (case ticker agent of None \<Rightarrow> ''undefined'' | Some t \<Rightarrow> t),
      content = body, author = name agent, authorHandle = None, wallet = None,
      votes = 1, voters = [], comments = [], time = ''just now'', timestamp = now,
      isAgentPost = True\<rparr>"

definition generateAgentIntroPost ::
  "agent \<Rightarrow> int \<Rightarrow> llm_outcome \<Rightarrow> server \<Rightarrow> server \<times> effect list" where
  "generateAgentIntroPost agent now outcome s =
     (case outcome of
        LlmFailed \<Rightarrow> (s, [])
      | LlmText txt \<Rightarrow>
          let p = intro_post agent now txt s;
              s1 = s\<lparr>nextPostId := nextPostId s + 1,
                     posts := p # posts s,
                     userAgents :=
                       (case userAgents s of
                          UAArray xs \<Rightarrow>
                            UAArray (update_first (\<lambda>x. a_id x = a_id agent)
                                       (\<lambda>x. x\<lparr>a_postCount := a_postCount x + 1\<rparr>) xs)
                        | UAObject kvs \<Rightarrow> UAObject kvs)\<rparr>
          in (s1, [Broadcast (NewPostEv p), SaveState, SaveDatabase]))"

section \<open>REST: an agent votes (server.js, POST /api/v1/agents/vote)\<close>

text \<open>
  \<^verbatim>\<open>
  app.post('/api/v1/agents/vote', (req, res) => {
    const { api_key, post_id, direction } = req.body;
    if (!api_key || !post_id || direction === undefined)
      return res.status(400).json({ success: false, error: 'Missing api_key, post_id, or direction' });
    const keyData = agentApiKeys[api_key];
    if (!keyData) return res.status(401).json({ success: false, error: 'Invalid API key' });
    const agent = registeredAgents[keyData.agentId];
    if (!agent || !agent.active)
      return res.status(404).json({ success: false, error: 'Agent not found or not active' });
    const post = posts.find(p => p.id === post_id);
    if (!post) return res.status(404).json({ success: false, error: 'Post not found' });
    const voteKey = `agent_${agent.id}`;
    if (!post.voters) post.voters = {};
    const oldVote = post.voters[voteKey] || 0;
    const newVote = direction > 0 ? 1 : direction < 0 ? -1 : 0;
    if (oldVote !== newVote) {
      post.votes = (post.votes || 0) - oldVote + newVote;
      post.voters[voteKey] = newVote;
      agent.lastActive = Date.now();
      keyData.lastUsed = Date.now();
      saveState();
      saveRegisteredAgents();
      broadcast({ type: 'update_post', post });
    }
    res.json({ success: true, post: { id: post.id, votes: post.votes } });
  });
  \<close>
\<close>

datatype body = ErrorBody string | VoteBody int int


section \<open>Comparisons, frames and example states\<close>


text \<open>A human post after one downvote by another wallet, and the same post with three votes.\<close>

definition quiet_post :: post where
  "quiet_post =
     \<lparr>post_id = 1, hive = Some ''c/general'', claw = None, title = ''Hello'',
      content = ''World'', author = ''ABC1..C123'', authorHandle = None,
      wallet = Some ''ABC123'', votes = 0, voters = [(''ABC123'', 1), (''XYZ789'', - 1)],
      comments = [], time = ''just now'', timestamp = 1000, isAgentPost = False\<rparr>"


text \<open>Three sessions: one open, one closed, one still connecting.\<close>

definition three_clients :: registry where
  "three_clients =
     [(\<lparr>sock_id = 1, readyState = OPEN, sent = [''hello'']\<rparr>, \<lparr>s_wallet = ''ABC123''\<rparr>),
      (\<lparr>sock_id = 2, readyState = CLOSED, sent = []\<rparr>, \<lparr>s_wallet = ''XYZ789''\<rparr>),
      (\<lparr>sock_id = 3, readyState = CONNECTING, sent = []\<rparr>, \<lparr>s_wallet = []\<rparr>)]"

text \<open>
  Two states agree on every collection except the per-user ones (\<open>users\<close>,
  \<open>achievements\<close>, \<open>notifications\<close>, \<open>activityFeed\<close>).
\<close>

definition same_content :: "server \<Rightarrow> server \<Rightarrow> bool" where
  "same_content s s' \<longleftrightarrow>
     posts s' = posts s \<and> nextPostId s' = nextPostId s \<and> agents s' = agents s
     \<and> userAgents s' = userAgents s \<and> nextAgentId s' = nextAgentId s
     \<and> registeredAgents s' = registeredAgents s \<and> agentApiKeys s' = agentApiKeys s
     \<and> rateLimitMap s' = rateLimitMap s \<and> topicInterests s' = topicInterests s"

text \<open>A server with nothing in it, and one with a single core agent.\<close>

definition empty_server :: server where
  "empty_server =
     \<lparr>posts = [], nextPostId = 1, users = [], achievements = [], notifications = [],
      activityFeed = [], topicInterests = [], agents = [], userAgents = UAArray [],
      nextAgentId = 100, registeredAgents = [], agentApiKeys = [], rateLimitMap = Map.empty\<rparr>"

definition core_agent :: agent where
  "core_agent =
     \<lparr>a_id = NumId 1, name = ''SNAI'', handle = ''snainetwork'', ticker = None,
      description = None, personality = None, creator = None, creatorWallet = None,
      a_karma = 10035, a_postCount = 0, a_commentCount = 0,
      topics = [''swarm'', ''consciousness'', ''emergence''],
      faction = Some ''The Collective'', createdAt = None, isUserCreated = False,
      token = None\<rparr>"

text \<open>A server whose post list is at the cap of 200, with one core agent.\<close>

definition full_server :: server where
  "full_server = empty_server\<lparr>posts := replicate 200 quiet_post, nextPostId := 500,
                               agents := [core_agent]\<rparr>"



text \<open>
  A server holding one human post by wallet \<open>ABC123\<close>, upvoted by its author and by the
  registered agent \<open>a1\<close>; the author's user record; the agent and its API key.
\<close>

definition voted_post :: post where
  "voted_post = quiet_post\<lparr>votes := 2, voters := [(''ABC123'', 1), (''agent_a1'', 1)]\<rparr>"

definition voted_server :: server where
  "voted_server =
     empty_server\<lparr>posts := [voted_post],
                  nextPostId := 2,
                  users := [(''ABC123'', \<lparr>u_wallet = ''ABC123'', username = None, u_karma = 101,
                                          joinedAt = 500, u_postCount = 1, u_commentCount = 0,
                                          lastSeen = 1000, agentsCreated = [], xp = 1000\<rparr>)],
                  registeredAgents :=
                    [(''a1'', \<lparr>r_id = ''a1'', r_name = ''Helper'', r_description = ''helps with things'',
                               r_personality = None, xHandle = ''helper'', r_karma = 10,
                               r_postCount = 0, r_commentCount = 0, r_topics = Some [''general''],
                               r_faction = None, active = True, lastActive = None\<rparr>)],
                  agentApiKeys :=
                    [(''k1'', \<lparr>k_agentId = ''a1'', k_createdAt = 600, lastUsed = None\<rparr>)]\<rparr>"

text \<open>
  A server with three users: \<open>W1\<close> and \<open>W2\<close> have the karma that agent creation asks
  for, \<open>W3\<close> has none. \<open>bob_data\<close> and \<open>bob_again\<close> ask for agents named \<open>Bob\<close> and
  \<open>BOB\<close>.
\<close>

definition plain_user :: "string \<Rightarrow> int \<Rightarrow> user" where
  "plain_user w k =
     \<lparr>u_wallet = w, username = None, u_karma = k, joinedAt = 500, u_postCount = 0,
      u_commentCount = 0, lastSeen = 900, agentsCreated = [], xp = 0\<rparr>"

definition agent_server :: server where
  "agent_server =
     empty_server\<lparr>users := [(''W1'', plain_user ''W1'' 50), (''W2'', plain_user ''W2'' 60),
                            (''W3'', plain_user ''W3'' 0)],
                  agents := [core_agent]\<rparr>"

definition bob_data :: agent_data where
  "bob_data = \<lparr>d_name = Some ''Bob'', d_ticker = Some ''BOB'',
                d_description = Some ''a helpful agent'', d_personality = None,
                d_deployToken = False\<rparr>"


text \<open>
  The agent that \<open>createUserAgent\<close> makes from \<open>bob_data\<close> for wallet \<open>W1\<close>, and a server at
  the cap of 200 posts that lists it.
\<close>

definition bob_agent :: agent where
  "bob_agent =
     \<lparr>a_id = NumId 100, name = ''Bob'', handle = ''bob'', ticker = Some ''$BOB'',
      description = Some ''a helpful agent'',
      personality = Some ''You are Bob. a helpful agent Stay in character. Be helpful and engaging.'',
      creator = Some ''W1..W1'', creatorWallet = Some ''W1'', a_karma = 10, a_postCount = 0,
      a_commentCount = 0, topics = [], faction = None, createdAt = Some 1000,
      isUserCreated = True, token = None\<rparr>"

definition full_server_with_bob :: server where
  "full_server_with_bob = full_server\<lparr>userAgents := UAArray [bob_agent], nextAgentId := 101\<rparr>"

section \<open>Rate limiting: properties\<close>

lemma ceil_div_bounds: "1000 * (ceil_div x 1000 - 1) < x \<and> x \<le> 1000 * ceil_div x 1000"
proof -
  define q r where "q = (- x) div 1000" and "r = (- x) mod 1000"
  have "- x = 1000 * q + r" "0 \<le> r" "r < 1000"
    by (simp_all add: q_def r_def)
  then show ?thesis
    unfolding ceil_div_def q_def [symmetric] by (simp_all add: algebra_simps)
qed

lemma ceil_div_pos: "0 < x \<Longrightarrow> 0 < ceil_div x 1000"
  using ceil_div_bounds [of x] by linarith

text \<open>
  Claim C4. A wallet other than the empty string and \<open>SNAI\<close>, whose recorded timestamps
  (if any) are all at least one window older than \<open>t1\<close>, makes six checks at the clock
  readings \<open>t1 \<le> ... \<le> t6\<close>, all within one window of \<open>t1\<close>. The first five are
  allowed; the sixth is rejected with a wait time that is positive and is the remaining
  part of the window in whole seconds, rounded up. Any later check that comes a full
  window after \<open>t1\<close>, the earliest counted action, is allowed again.
\<close>

theorem checkRateLimit_window:
  assumes w: "w \<noteq> []" "w \<noteq> ''SNAI''"
    and old: "\<forall>t \<in> set (case m w of None \<Rightarrow> [] | Some ts \<Rightarrow> ts). RATE_WINDOW \<le> t1 - t"
    and ord: "t1 \<le> t2" "t2 \<le> t3" "t3 \<le> t4" "t4 \<le> t5" "t5 \<le> t6" "t6 - t1 < RATE_WINDOW"
    and late: "RATE_WINDOW \<le> now - t1"
  shows "\<exists>wait. fst (checkRateLimit_seq (Str w) [t1, t2, t3, t4, t5, t6] m)
             = [Allowed, Allowed, Allowed, Allowed, Allowed, Rejected wait]
           \<and> 0 < wait \<and> 1000 * (wait - 1) < RATE_WINDOW - (t6 - t1)
           \<and> RATE_WINDOW - (t6 - t1) \<le> 1000 * wait
           \<and> fst (checkRateLimit now (Str w)
                  (snd (checkRateLimit_seq (Str w) [t1, t2, t3, t4, t5, t6] m))) = Allowed"
proof -
  let ?wait = "ceil_div (RATE_WINDOW - (t6 - t1)) 1000"
  have f0: "filter (\<lambda>t. t1 - t < RATE_WINDOW) (case m w of None \<Rightarrow> [] | Some ts \<Rightarrow> ts) = []"
    using old by (auto simp: filter_empty_conv)
  have pos: "0 < ?wait"
    using ord by (intro ceil_div_pos) simp
  have run: "checkRateLimit_seq (Str w) [t1, t2, t3, t4, t5, t6] m
      = ([Allowed, Allowed, Allowed, Allowed, Allowed, Rejected ?wait],
         m(w \<mapsto> [t1, t2, t3, t4, t5]))"
    using w ord f0 by (simp add: Let_def RATE_LIMIT_def RATE_WINDOW_def)
  have again: "fst (checkRateLimit now (Str w) (m(w \<mapsto> [t1, t2, t3, t4, t5]))) = Allowed"
    using w late by (simp add: Let_def RATE_LIMIT_def RATE_WINDOW_def)
  show ?thesis
    using run pos again ceil_div_bounds [of "RATE_WINDOW - (t6 - t1)"] by simp
qed

theorem checkRateLimit_window_witness:
  "\<exists>wait. fst (checkRateLimit_seq (Str ''ABC123'') [0, 1000, 2000, 3000, 4000, 5000] Map.empty)
             = [Allowed, Allowed, Allowed, Allowed, Allowed, Rejected wait]
           \<and> 0 < wait \<and> 1000 * (wait - 1) < RATE_WINDOW - (5000 - 0)
           \<and> RATE_WINDOW - (5000 - 0) \<le> 1000 * wait
           \<and> fst (checkRateLimit 60000 (Str ''ABC123'')
                  (snd (checkRateLimit_seq (Str ''ABC123'') [0, 1000, 2000, 3000, 4000, 5000]
                         Map.empty))) = Allowed"
  by (rule checkRateLimit_window) (simp_all add: RATE_WINDOW_def)

lemma checkRateLimit_seq_exempt:
  "falsy w \<or> w = Str ''SNAI'' \<Longrightarrow> checkRateLimit_seq w ts m = (replicate (length ts) Allowed, m)"
  by (induction ts) (cases w; auto)+

text \<open>
  Claim C9. For the wallet string \<open>SNAI\<close> and for every falsy wallet value (the empty
  string, \<open>null\<close>, \<open>undefined\<close>) the check answers allowed and leaves the map of
  timestamps as it was; any number of successive checks are therefore all allowed.
\<close>

theorem checkRateLimit_exempt:
  assumes "falsy w \<or> w = Str ''SNAI''"
  shows "checkRateLimit now w m = (Allowed, m)
       \<and> checkRateLimit_seq w ts m = (replicate (length ts) Allowed, m)"
proof
  show "checkRateLimit now w m = (Allowed, m)"
    using assms by (cases w) auto
  show "checkRateLimit_seq w ts m = (replicate (length ts) Allowed, m)"
    using assms by (rule checkRateLimit_seq_exempt)
qed

theorem checkRateLimit_exempt_witness:
  "checkRateLimit 7 (Str ''SNAI'') Map.empty = (Allowed, Map.empty)
   \<and> checkRateLimit_seq (Str ''SNAI'') [1, 2, 3, 4, 5, 6, 7] Map.empty
       = ([Allowed, Allowed, Allowed, Allowed, Allowed, Allowed, Allowed], Map.empty)
   \<and> checkRateLimit 7 (Str []) Map.empty = (Allowed, Map.empty)
   \<and> checkRateLimit 7 Null Map.empty = (Allowed, Map.empty)
   \<and> checkRateLimit 7 Undefined Map.empty = (Allowed, Map.empty)"
proof -
  have a: "falsy (Str ''SNAI'') \<or> Str ''SNAI'' = Str ''SNAI''" by simp
  have b: "falsy (Str []) \<or> Str [] = Str ''SNAI''" by simp
  have c: "falsy Null \<or> Null = Str ''SNAI''" by simp
  have d: "falsy Undefined \<or> Undefined = Str ''SNAI''" by simp
  show ?thesis
    using checkRateLimit_exempt [OF a, of 7 Map.empty "[1, 2, 3, 4, 5, 6, 7]"]
      checkRateLimit_exempt [OF b, of 7 Map.empty "[]"]
      checkRateLimit_exempt [OF c, of 7 Map.empty "[]"]
      checkRateLimit_exempt [OF d, of 7 Map.empty "[]"]
    by (simp add: numeral_eq_Suc)
qed

section \<open>Broadcast channel: properties\<close>

lemma broadcast_nth:
  "i < length clients \<Longrightarrow>
     snd (broadcast stringify data clients) ! i
       = (if readyState (fst (clients ! i)) = OPEN
          then send (stringify data) (fst (clients ! i)) else fst (clients ! i),
          snd (clients ! i))"
  by (simp add: broadcast_def split: prod.split)

text \<open>
  Claim C8. A broadcast calls the serializer once, on the event. The registry keeps its
  length, its sessions and the identity and ready state of every socket. A socket that
  is open gets the one serialization appended to what was written to it; a socket in any
  other state is left exactly as it was.
\<close>

theorem broadcast_fanout:
  "fst (broadcast stringify data clients) = [data]
   \<and> length (snd (broadcast stringify data clients)) = length clients
   \<and> map snd (snd (broadcast stringify data clients)) = map snd clients
   \<and> map (\<lambda>c. sock_id (fst c)) (snd (broadcast stringify data clients))
       = map (\<lambda>c. sock_id (fst c)) clients
   \<and> map (\<lambda>c. readyState (fst c)) (snd (broadcast stringify data clients))
       = map (\<lambda>c. readyState (fst c)) clients
   \<and> (\<forall>i < length clients.
         (readyState (fst (clients ! i)) = OPEN \<longrightarrow>
            fst (snd (broadcast stringify data clients) ! i)
              = (fst (clients ! i))\<lparr>sent := sent (fst (clients ! i)) @ [stringify data]\<rparr>)
       \<and> (readyState (fst (clients ! i)) \<noteq> OPEN \<longrightarrow>
            fst (snd (broadcast stringify data clients) ! i) = fst (clients ! i)))"
proof -
  have 1: "fst (broadcast stringify data clients) = [data]"
    by (simp add: broadcast_def)
  have 2: "length (snd (broadcast stringify data clients)) = length clients"
    by (simp add: broadcast_def)
  have 3: "map snd (snd (broadcast stringify data clients)) = map snd clients"
    by (simp add: broadcast_def split_beta)
  have 4: "map (\<lambda>c. sock_id (fst c)) (snd (broadcast stringify data clients))
       = map (\<lambda>c. sock_id (fst c)) clients"
    by (simp add: broadcast_def split_beta send_def)
  have 5: "map (\<lambda>c. readyState (fst c)) (snd (broadcast stringify data clients))
       = map (\<lambda>c. readyState (fst c)) clients"
    by (simp add: broadcast_def split_beta send_def)
  have 6: "\<forall>i < length clients.
         (readyState (fst (clients ! i)) = OPEN \<longrightarrow>
            fst (snd (broadcast stringify data clients) ! i)
              = (fst (clients ! i))\<lparr>sent := sent (fst (clients ! i)) @ [stringify data]\<rparr>)
       \<and> (readyState (fst (clients ! i)) \<noteq> OPEN \<longrightarrow>
            fst (snd (broadcast stringify data clients) ! i) = fst (clients ! i))"
    by (simp add: broadcast_nth send_def)
  show ?thesis using 1 2 3 4 5 6 by blast
qed

theorem broadcast_fanout_witness:
  "fst (snd (broadcast (\<lambda>e. ''state'') (StateEv 1 0) three_clients) ! 0)
     = \<lparr>sock_id = 1, readyState = OPEN, sent = [''hello'', ''state'']\<rparr>
   \<and> fst (snd (broadcast (\<lambda>e. ''state'') (StateEv 1 0) three_clients) ! 1)
       = \<lparr>sock_id = 2, readyState = CLOSED, sent = []\<rparr>
   \<and> fst (snd (broadcast (\<lambda>e. ''state'') (StateEv 1 0) three_clients) ! 2)
       = \<lparr>sock_id = 3, readyState = CONNECTING, sent = []\<rparr>
   \<and> length (snd (broadcast (\<lambda>e. ''state'') (StateEv 1 0) three_clients)) = 3"
proof -
  have len: "length three_clients = 3" "(0::nat) < 3" "(1::nat) < 3" "(2::nat) < 3"
    by (simp_all add: three_clients_def)
  have st: "readyState (fst (three_clients ! 0)) = OPEN"
    "readyState (fst (three_clients ! 1)) \<noteq> OPEN"
    "readyState (fst (three_clients ! 2)) \<noteq> OPEN"
    by (simp_all add: three_clients_def)
  have el: "fst (three_clients ! 0) = \<lparr>sock_id = 1, readyState = OPEN, sent = [''hello'']\<rparr>"
    "fst (three_clients ! 1) = \<lparr>sock_id = 2, readyState = CLOSED, sent = []\<rparr>"
    "fst (three_clients ! 2) = \<lparr>sock_id = 3, readyState = CONNECTING, sent = []\<rparr>"
    by (simp_all add: three_clients_def)
  show ?thesis
    using broadcast_fanout [of "\<lambda>e. ''state''" "StateEv 1 0" three_clients] len st el
    by simp
qed

section \<open>Hot score: properties\<close>







section \<open>Frames of the helper functions\<close>

lemma same_content_refl: "same_content s s"
  by (simp add: same_content_def)

lemma same_content_upd:
  "same_content s (s'\<lparr>users := us\<rparr>) = same_content s s'"
  "same_content s (s'\<lparr>achievements := ac\<rparr>) = same_content s s'"
  "same_content s (s'\<lparr>notifications := ns\<rparr>) = same_content s s'"
  "same_content s (s'\<lparr>activityFeed := af\<rparr>) = same_content s s'"
  by (simp_all add: same_content_def)

lemma update_user_same: "same_content s (update_user w f s') = same_content s s'"
  by (simp add: update_user_def same_content_upd split: option.splits)

lemma addNotification_same:
  "same_content s (fst (addNotification now w ty text rel s')) = same_content s s'"
  by (simp add: addNotification_def Let_def same_content_upd)

lemma addActivity_same:
  "same_content s (fst (addActivity now ty act tgt text s')) = same_content s s'"
  by (simp add: addActivity_def Let_def same_content_upd)

lemma unlockAchievement_same:
  "same_content s (fst (unlockAchievement now w a s')) = same_content s s'"
  by (simp add: unlockAchievement_def Let_def same_content_upd update_user_same
        addNotification_same addActivity_same split_beta
        split: option.splits)

lemma getUser_same: "same_content s (fst (getUser now w s))"
  by (simp add: getUser_def Let_def same_content_upd unlockAchievement_same split_beta
        same_content_refl split: option.splits)

lemma getUser_fields:
  "posts (fst (getUser now w s)) = posts s"
  "nextPostId (fst (getUser now w s)) = nextPostId s"
  "rateLimitMap (fst (getUser now w s)) = rateLimitMap s"
  "agents (fst (getUser now w s)) = agents s"
  "userAgents (fst (getUser now w s)) = userAgents s"
  "nextAgentId (fst (getUser now w s)) = nextAgentId s"
  "registeredAgents (fst (getUser now w s)) = registeredAgents s"
  using getUser_same [of s now w] by (simp_all add: same_content_def)

section \<open>Post generation: properties\<close>




section \<open>New posts: properties\<close>

lemma update_user_fields:
  "posts (update_user w f s) = posts s"
  "nextPostId (update_user w f s) = nextPostId s"
  by (simp_all add: update_user_def split: option.splits)

lemma trackTopicInterest_fields:
  "posts (fst (trackTopicInterest w t s)) = posts s"
  "nextPostId (fst (trackTopicInterest w t s)) = nextPostId s"
  by (simp_all add: trackTopicInterest_def Let_def split: option.splits)

lemma new_post_allowed:
  assumes "uw \<noteq> []" "checkRateLimit now (Str uw) (rateLimitMap s) = (Allowed, m)"
  shows "posts (fst (new_post now uw h t c s))
           = take 200 (human_post now uw h t c (s\<lparr>rateLimitMap := m\<rparr>) # posts s)"
    and "nextPostId (fst (new_post now uw h t c s)) = nextPostId s + 1"
    and "Broadcast (NewPostEv (human_post now uw h t c (s\<lparr>rateLimitMap := m\<rparr>)))
           \<in> set (snd (new_post now uw h t c s))"
  using assms
  by (simp_all add: new_post_def Let_def split_beta trackTopicInterest_fields update_user_fields)

lemma new_post_length:
  "length (posts s) \<le> 200 \<Longrightarrow> length (posts (fst (new_post now uw h t c s))) \<le> 200"
  by (simp add: new_post_def Let_def split_beta trackTopicInterest_fields update_user_fields
        split: prod.splits rate_result.splits)

lemma ws_new_post:
  "fst (ws_message now ca uw (NewPostMsg h t c) s) = fst (new_post now uw h t c (fst (getUser now uw s)))"
  "snd (ws_message now ca uw (NewPostMsg h t c) s)
     = snd (getUser now uw s) @ snd (new_post now uw h t c (fst (getUser now uw s)))"
  by (simp_all add: ws_message_def split_beta)

lemma human_post_fields:
  "post_id (human_post now uw h t c s) = nextPostId s"
  "wallet (human_post now uw h t c s) = Some uw"
  "votes (human_post now uw h t c s) = 1"
  "voters (human_post now uw h t c s) = [(uw, 1)]"
  "comments (human_post now uw h t c s) = []"
  "hive (human_post now uw h t c s) = Some (or_default h ''c/general'')"
  "title (human_post now uw h t c s) = take 200 (or_default t ''Untitled'')"
  "content (human_post now uw h t c s) = take 2000 (or_default c [])"
  "timestamp (human_post now uw h t c s) = now"
  by (simp_all add: human_post_def)

lemma take_cap:
  "length xs = 200 \<Longrightarrow> take 200 (p # xs) = p # butlast xs"
  by (simp add: butlast_conv_take numeral_eq_Suc)

text \<open>
  Claim C5. Wallet \<open>ABC123\<close>, connected and not rate-limited, sends a new post with title
  \<open>Hello\<close>, content \<open>World\<close> and community \<open>general\<close>. The post list becomes the new post
  in front of the old list (cut to 200); the new post has the next id, one vote, the
  voter map \<open>{ABC123: 1}\<close>, no comments and the given title, content and community; the
  post id counter goes up by exactly one; and a \<open>new_post\<close> broadcast carries that post.
\<close>

theorem new_post_scenario:
  assumes "fst (checkRateLimit now (Str ''ABC123'') (rateLimitMap s)) = Allowed"
  shows "\<exists>p. posts (fst (ws_message now ca ''ABC123''
                          (NewPostMsg (Some ''general'') (Some ''Hello'') (Some ''World'')) s))
              = take 200 (p # posts s)
          \<and> post_id p = nextPostId s \<and> votes p = 1 \<and> voters p = [(''ABC123'', 1)]
          \<and> comments p = [] \<and> title p = ''Hello'' \<and> content p = ''World''
          \<and> hive p = Some ''general'' \<and> wallet p = Some ''ABC123''
          \<and> nextPostId (fst (ws_message now ca ''ABC123''
                          (NewPostMsg (Some ''general'') (Some ''Hello'') (Some ''World'')) s))
              = nextPostId s + 1
          \<and> Broadcast (NewPostEv p)
              \<in> set (snd (ws_message now ca ''ABC123''
                          (NewPostMsg (Some ''general'') (Some ''Hello'') (Some ''World'')) s))"
proof -
  let ?s1 = "fst (getUser now ''ABC123'' s)"
  obtain m where m: "checkRateLimit now (Str ''ABC123'') (rateLimitMap ?s1) = (Allowed, m)"
    using assms by (metis getUser_fields(3) prod.collapse)
  let ?p = "human_post now ''ABC123'' (Some ''general'') (Some ''Hello'') (Some ''World'')
              (?s1\<lparr>rateLimitMap := m\<rparr>)"
  have ne: "''ABC123'' \<noteq> []" by simp
  note np = new_post_allowed [OF ne m, of "Some ''general''" "Some ''Hello''" "Some ''World''"]
  have "posts (fst (ws_message now ca ''ABC123''
                          (NewPostMsg (Some ''general'') (Some ''Hello'') (Some ''World'')) s))
              = take 200 (?p # posts s)"
    using np(1) by (simp add: ws_new_post getUser_fields)
  moreover have "nextPostId (fst (ws_message now ca ''ABC123''
                          (NewPostMsg (Some ''general'') (Some ''Hello'') (Some ''World'')) s))
              = nextPostId s + 1"
    using np(2) by (simp add: ws_new_post getUser_fields)
  moreover have "Broadcast (NewPostEv ?p)
              \<in> set (snd (ws_message now ca ''ABC123''
                          (NewPostMsg (Some ''general'') (Some ''Hello'') (Some ''World'')) s))"
    using np(3) by (simp add: ws_new_post)
  moreover have "post_id ?p = nextPostId s \<and> votes ?p = 1 \<and> voters ?p = [(''ABC123'', 1)]
          \<and> comments ?p = [] \<and> title ?p = ''Hello'' \<and> content ?p = ''World''
          \<and> hive ?p = Some ''general'' \<and> wallet ?p = Some ''ABC123''"
    by (simp add: human_post_fields getUser_fields or_default_def truthy_name_def)
  ultimately show ?thesis by blast
qed


theorem new_post_scenario_witness:
  "\<exists>p. posts (fst (ws_message 1000 [] ''ABC123''
                          (NewPostMsg (Some ''general'') (Some ''Hello'') (Some ''World''))
                          empty_server))
              = take 200 (p # posts empty_server)
          \<and> post_id p = nextPostId empty_server \<and> votes p = 1 \<and> voters p = [(''ABC123'', 1)]
          \<and> comments p = [] \<and> title p = ''Hello'' \<and> content p = ''World''
          \<and> hive p = Some ''general'' \<and> wallet p = Some ''ABC123''
          \<and> nextPostId (fst (ws_message 1000 [] ''ABC123''
                          (NewPostMsg (Some ''general'') (Some ''Hello'') (Some ''World''))
                          empty_server))
              = nextPostId empty_server + 1
          \<and> Broadcast (NewPostEv p)
              \<in> set (snd (ws_message 1000 [] ''ABC123''
                          (NewPostMsg (Some ''general'') (Some ''Hello'') (Some ''World''))
                          empty_server))"
  by (rule new_post_scenario) (simp add: empty_server_def RATE_LIMIT_def)

lemma generateKrabPost_length:
  "length (posts s) \<le> 200 \<Longrightarrow>
     length (posts (fst (generateKrabPost ai t_hive rv now outcome s))) \<le> 200"
  by (simp add: generateKrabPost_def Let_def split: llm_outcome.splits option.splits)

lemma generateKrabPost_posts:
  assumes "ai < length (agents s)" "match_title txt = Some tm" "match_content txt = Some cm"
  shows "posts (fst (generateKrabPost ai t_hive rv now (LlmText txt) s))
           = take 200 (krab_post (agents s ! ai) t_hive rv now (take 200 (trim tm))
                         (take 2000 (trim cm)) s # posts s)"
  using assms by (simp add: generateKrabPost_def Let_def)

text \<open>
  The two creators that cut the list. The human new-post handler and \<open>generateKrabPost\<close>
  keep a post list of at most 200 entries at most 200 long, whatever the input. When the
  human handler creates a post (wallet given, rate limit passed), and when
  \<open>generateKrabPost\<close> does (an agent at the drawn index, both markers matched), the new
  list is the new post in front of the old list, cut to 200: at the cap the insertion is
  not refused, the last (oldest) entry is dropped.
\<close>

theorem posts_capped:
  "(length (posts s) \<le> 200 \<longrightarrow>
      length (posts (fst (ws_message now ca uw (NewPostMsg h t c) s))) \<le> 200
      \<and> length (posts (fst (generateKrabPost ai t_hive rv now outcome s))) \<le> 200)
   \<and> (uw \<noteq> [] \<and> fst (checkRateLimit now (Str uw) (rateLimitMap s)) = Allowed \<longrightarrow>
        (\<exists>p. post_id p = nextPostId s \<and> wallet p = Some uw
           \<and> posts (fst (ws_message now ca uw (NewPostMsg h t c) s)) = take 200 (p # posts s)
           \<and> length (posts (fst (ws_message now ca uw (NewPostMsg h t c) s))) \<le> 200
           \<and> (length (posts s) = 200 \<longrightarrow>
                posts (fst (ws_message now ca uw (NewPostMsg h t c) s)) = p # butlast (posts s))))
   \<and> (ai < length (agents s) \<and> match_title txt \<noteq> None \<and> match_content txt \<noteq> None \<longrightarrow>
        (\<exists>p. post_id p = nextPostId s \<and> isAgentPost p
           \<and> posts (fst (generateKrabPost ai t_hive rv now (LlmText txt) s))
                = take 200 (p # posts s)
           \<and> length (posts (fst (generateKrabPost ai t_hive rv now (LlmText txt) s))) \<le> 200
           \<and> (length (posts s) = 200 \<longrightarrow>
                posts (fst (generateKrabPost ai t_hive rv now (LlmText txt) s))
                  = p # butlast (posts s))))"
proof (intro conjI impI)
  assume "length (posts s) \<le> 200"
  then show "length (posts (fst (ws_message now ca uw (NewPostMsg h t c) s))) \<le> 200"
    using new_post_length [of "fst (getUser now uw s)" now uw h t c]
    by (simp add: ws_new_post getUser_fields)
next
  assume "length (posts s) \<le> 200"
  then show "length (posts (fst (generateKrabPost ai t_hive rv now outcome s))) \<le> 200"
    by (rule generateKrabPost_length)
next
  assume a: "uw \<noteq> [] \<and> fst (checkRateLimit now (Str uw) (rateLimitMap s)) = Allowed"
  let ?s1 = "fst (getUser now uw s)"
  obtain m where m: "checkRateLimit now (Str uw) (rateLimitMap ?s1) = (Allowed, m)"
    using a by (metis getUser_fields(3) prod.collapse)
  let ?p = "human_post now uw h t c (?s1\<lparr>rateLimitMap := m\<rparr>)"
  have eq: "posts (fst (ws_message now ca uw (NewPostMsg h t c) s)) = take 200 (?p # posts s)"
    using new_post_allowed(1) [OF _ m, of h t c] a by (simp add: ws_new_post getUser_fields)
  have "post_id ?p = nextPostId s \<and> wallet ?p = Some uw"
    by (simp add: human_post_fields getUser_fields)
  moreover have "length (posts (fst (ws_message now ca uw (NewPostMsg h t c) s))) \<le> 200"
    unfolding eq by simp
  moreover have "length (posts s) = 200 \<longrightarrow>
      posts (fst (ws_message now ca uw (NewPostMsg h t c) s)) = ?p # butlast (posts s)"
    unfolding eq by (intro impI) (rule take_cap)
  ultimately show "\<exists>p. post_id p = nextPostId s \<and> wallet p = Some uw
           \<and> posts (fst (ws_message now ca uw (NewPostMsg h t c) s)) = take 200 (p # posts s)
           \<and> length (posts (fst (ws_message now ca uw (NewPostMsg h t c) s))) \<le> 200
           \<and> (length (posts s) = 200 \<longrightarrow>
                posts (fst (ws_message now ca uw (NewPostMsg h t c) s)) = p # butlast (posts s))"
    using eq by blast
next
  assume a: "ai < length (agents s) \<and> match_title txt \<noteq> None \<and> match_content txt \<noteq> None"
  then obtain tm cm where tc: "match_title txt = Some tm" "match_content txt = Some cm"
    by auto
  let ?p = "krab_post (agents s ! ai) t_hive rv now (take 200 (trim tm)) (take 2000 (trim cm)) s"
  have eq: "posts (fst (generateKrabPost ai t_hive rv now (LlmText txt) s))
              = take 200 (?p # posts s)"
    using generateKrabPost_posts [OF _ tc] a by simp
  have "post_id ?p = nextPostId s \<and> isAgentPost ?p"
    by (simp add: krab_post_def)
  moreover have "length (posts (fst (generateKrabPost ai t_hive rv now (LlmText txt) s))) \<le> 200"
    unfolding eq by simp
  moreover have "length (posts s) = 200 \<longrightarrow>
      posts (fst (generateKrabPost ai t_hive rv now (LlmText txt) s)) = ?p # butlast (posts s)"
    unfolding eq by (intro impI) (rule take_cap)
  ultimately show "\<exists>p. post_id p = nextPostId s \<and> isAgentPost p
           \<and> posts (fst (generateKrabPost ai t_hive rv now (LlmText txt) s))
                = take 200 (p # posts s)
           \<and> length (posts (fst (generateKrabPost ai t_hive rv now (LlmText txt) s))) \<le> 200
           \<and> (length (posts s) = 200 \<longrightarrow>
                posts (fst (generateKrabPost ai t_hive rv now (LlmText txt) s))
                  = p # butlast (posts s))"
    using eq by blast
qed

theorem posts_capped_witness:
  "length (posts (fst (ws_message 1000 [] ''ABC123'' (NewPostMsg None (Some ''Hello'') None)
                         full_server))) \<le> 200
   \<and> (\<exists>p. post_id p = nextPostId full_server
          \<and> posts (fst (ws_message 1000 [] ''ABC123'' (NewPostMsg None (Some ''Hello'') None)
                           full_server))
              = p # butlast (posts full_server))
   \<and> (\<exists>p. post_id p = nextPostId full_server
          \<and> posts (fst (generateKrabPost 0 ''c/general'' 4 1000 (LlmText ''title:a content:b'')
                           full_server))
              = p # butlast (posts full_server))"
proof -
  have len: "length (posts full_server) = 200" "length (posts full_server) \<le> 200"
    by (simp_all add: full_server_def empty_server_def)
  have ok: "''ABC123'' \<noteq> []
      \<and> fst (checkRateLimit 1000 (Str ''ABC123'') (rateLimitMap full_server)) = Allowed"
    by (simp add: full_server_def empty_server_def RATE_LIMIT_def)
  have ag: "0 < length (agents full_server)"
    by (simp add: full_server_def empty_server_def)
  have mt: "match_title ''title:a content:b'' \<noteq> None"
    by code_simp
  have mc: "match_content ''title:a content:b'' \<noteq> None"
    by code_simp
  show ?thesis
    using posts_capped [of full_server 1000 "[]" "''ABC123''" None "Some ''Hello''" None
        0 "''c/general''" 4 LlmFailed "''title:a content:b''"] len ok ag mt mc
    by blast
qed

section \<open>Voting: properties\<close>















section \<open>Deleting a post: properties\<close>

lemma getUser_empty: "getUser now [] s = (s, [])"
  by (simp add: getUser_def)

lemma getUser_known:
  "w \<noteq> [] \<Longrightarrow> map_of (users s) w = Some u \<Longrightarrow>
     getUser now w s = (s\<lparr>users := AList.update w (u\<lparr>lastSeen := now\<rparr>) (users s)\<rparr>, [])"
  by (simp add: getUser_def)

lemma addNotification_effects:
  "Broadcast e \<notin> set (snd (addNotification now w ty text rel s))"
  by (simp add: addNotification_def Let_def)

lemma addActivity_effects:
  "snd (addActivity now ty act tgt text s)
     = [Broadcast (ActivityEv \<lparr>act_type = ty,
          actor = (case truthy_name (case map_of (users s) act of None \<Rightarrow> None
                                      | Some u \<Rightarrow> username u) of
                     Some n \<Rightarrow> n | None \<Rightarrow> take 4 act @ ''..''),
          actorWallet = act, target = tgt, act_content = text, act_timestamp = now\<rparr>)]"
  by (simp add: addActivity_def Let_def)

lemma unlockAchievement_effects:
  "Broadcast (DeletePostEv pid) \<notin> set (snd (unlockAchievement now w a s))"
  by (simp add: unlockAchievement_def Let_def split_beta addNotification_effects
        addActivity_effects split: option.splits)

lemma getUser_effects:
  "Broadcast (DeletePostEv pid) \<notin> set (snd (getUser now w s))"
  by (simp add: getUser_def Let_def split_beta unlockAchievement_effects split: option.splits)

lemma delete_post_noop:
  assumes "\<forall>idx. findIndex (\<lambda>p. post_id p = pid) (posts s) = Some idx
             \<longrightarrow> wallet (posts s ! idx) \<noteq> Some uw"
  shows "delete_post uw pid s = (s, [])"
  using assms by (simp add: delete_post_def split: option.splits)

lemma ws_delete_post:
  "ws_message now ca uw (DeletePostMsg pid) s
     = (fst (delete_post uw pid (fst (getUser now uw s))),
        snd (getUser now uw s) @ snd (delete_post uw pid (fst (getUser now uw s))))"
  by (simp add: ws_message_def split_beta)

lemma ws_delete_post_noop:
  assumes "\<forall>idx. findIndex (\<lambda>p. post_id p = pid) (posts s) = Some idx
             \<longrightarrow> wallet (posts s ! idx) \<noteq> Some uw"
  shows "ws_message now ca uw (DeletePostMsg pid) s = getUser now uw s"
proof -
  have "delete_post uw pid (fst (getUser now uw s)) = (fst (getUser now uw s), [])"
    using assms by (intro delete_post_noop) (simp add: getUser_fields)
  then show ?thesis by (simp add: ws_delete_post)
qed

text \<open>
  Claim C10, amended. When no post has the requested id, or the post found has a wallet
  field different from the session's wallet, the handler does nothing beyond the
  \<open>getUser(uw)\<close> call that opens every message: the post list and every collection other
  than the per-user ones are as before and no \<open>delete_post\<close> broadcast is made. For a
  session without wallet nothing changes at all; for a wallet with a user record the one
  change is that record's \<open>lastSeen\<close>, set to the clock reading, and there is no effect.
  When the post found carries the session's wallet, it is removed from the list and a
  \<open>delete_post\<close> broadcast with the id is made.
\<close>

theorem delete_post_frame:
  "((\<forall>idx. findIndex (\<lambda>p. post_id p = pid) (posts s) = Some idx
             \<longrightarrow> wallet (posts s ! idx) \<noteq> Some uw) \<longrightarrow>
      ws_message now ca uw (DeletePostMsg pid) s = getUser now uw s
      \<and> same_content s (fst (ws_message now ca uw (DeletePostMsg pid) s))
      \<and> Broadcast (DeletePostEv pid) \<notin> set (snd (ws_message now ca uw (DeletePostMsg pid) s))
      \<and> (uw = [] \<longrightarrow> ws_message now ca uw (DeletePostMsg pid) s = (s, []))
      \<and> (\<forall>u. uw \<noteq> [] \<and> map_of (users s) uw = Some u \<longrightarrow>
            ws_message now ca uw (DeletePostMsg pid) s
              = (s\<lparr>users := AList.update uw (u\<lparr>lastSeen := now\<rparr>) (users s)\<rparr>, [])))
   \<and> (\<forall>idx. findIndex (\<lambda>p. post_id p = pid) (posts s) = Some idx
             \<and> wallet (posts s ! idx) = Some uw \<longrightarrow>
          posts (fst (ws_message now ca uw (DeletePostMsg pid) s))
            = take idx (posts s) @ drop (Suc idx) (posts s)
          \<and> Broadcast (DeletePostEv pid)
              \<in> set (snd (ws_message now ca uw (DeletePostMsg pid) s)))"
proof (intro conjI impI allI)
  assume a: "\<forall>idx. findIndex (\<lambda>p. post_id p = pid) (posts s) = Some idx
             \<longrightarrow> wallet (posts s ! idx) \<noteq> Some uw"
  note eq = ws_delete_post_noop [OF a, of now ca]
  show "ws_message now ca uw (DeletePostMsg pid) s = getUser now uw s" by (rule eq)
  show "same_content s (fst (ws_message now ca uw (DeletePostMsg pid) s))"
    unfolding eq by (rule getUser_same)
  show "Broadcast (DeletePostEv pid) \<notin> set (snd (ws_message now ca uw (DeletePostMsg pid) s))"
    unfolding eq by (rule getUser_effects)
  show "ws_message now ca uw (DeletePostMsg pid) s = (s, [])" if "uw = []"
    unfolding eq using that by (simp add: getUser_empty)
  show "ws_message now ca uw (DeletePostMsg pid) s
          = (s\<lparr>users := AList.update uw (u\<lparr>lastSeen := now\<rparr>) (users s)\<rparr>, [])"
    if "uw \<noteq> [] \<and> map_of (users s) uw = Some u" for u
    unfolding eq using that by (simp add: getUser_known)
next
  fix idx
  assume b: "findIndex (\<lambda>p. post_id p = pid) (posts s) = Some idx
             \<and> wallet (posts s ! idx) = Some uw"
  then show "posts (fst (ws_message now ca uw (DeletePostMsg pid) s))
            = take idx (posts s) @ drop (Suc idx) (posts s)"
    by (simp add: ws_delete_post delete_post_def getUser_fields Let_def)
  from b show "Broadcast (DeletePostEv pid)
              \<in> set (snd (ws_message now ca uw (DeletePostMsg pid) s))"
    by (simp add: ws_delete_post delete_post_def getUser_fields Let_def)
qed

lemma voted_server_user:
  "map_of (users voted_server) ''ABC123''
     = Some \<lparr>u_wallet = ''ABC123'', username = None, u_karma = 101, joinedAt = 500,
             u_postCount = 1, u_commentCount = 0, lastSeen = 1000, agentsCreated = [],
             xp = 1000\<rparr>"
  by (simp add: voted_server_def empty_server_def)

lemma voted_server_findIndex:
  "findIndex (\<lambda>p. post_id p = 99) (posts voted_server) = None"
  "findIndex (\<lambda>p. post_id p = 1) (posts voted_server) = Some 0"
  "wallet (posts voted_server ! 0) = Some ''ABC123''"
  by (simp_all add: voted_server_def empty_server_def voted_post_def quiet_post_def)

theorem delete_post_frame_witness:
  "posts (fst (ws_message 2000 [] ''XYZ789'' (DeletePostMsg 1) voted_server)) = posts voted_server
   \<and> Broadcast (DeletePostEv 1)
       \<notin> set (snd (ws_message 2000 [] ''XYZ789'' (DeletePostMsg 1) voted_server))
   \<and> ws_message 2000 [] [] (DeletePostMsg 1) voted_server = (voted_server, [])
   \<and> lastSeen (the (map_of (users (fst (ws_message 2000 [] ''ABC123'' (DeletePostMsg 99)
                                          voted_server))) ''ABC123'')) = 2000
   \<and> posts (fst (ws_message 2000 [] ''ABC123'' (DeletePostMsg 1) voted_server)) = []
   \<and> Broadcast (DeletePostEv 1)
       \<in> set (snd (ws_message 2000 [] ''ABC123'' (DeletePostMsg 1) voted_server))"
proof -
  have other: "\<forall>idx. findIndex (\<lambda>p. post_id p = 1) (posts voted_server) = Some idx
             \<longrightarrow> wallet (posts voted_server ! idx) \<noteq> Some ''XYZ789''"
    by (simp add: voted_server_findIndex)
  have nowallet: "\<forall>idx. findIndex (\<lambda>p. post_id p = 1) (posts voted_server) = Some idx
             \<longrightarrow> wallet (posts voted_server ! idx) \<noteq> Some []"
    by (simp add: voted_server_findIndex)
  have missing: "\<forall>idx. findIndex (\<lambda>p. post_id p = 99) (posts voted_server) = Some idx
             \<longrightarrow> wallet (posts voted_server ! idx) \<noteq> Some ''ABC123''"
    by (simp add: voted_server_findIndex)
  have own: "findIndex (\<lambda>p. post_id p = 1) (posts voted_server) = Some 0
             \<and> wallet (posts voted_server ! 0) = Some ''ABC123''"
    by (simp add: voted_server_findIndex)
  have known: "''ABC123'' \<noteq> [] \<and> map_of (users voted_server) ''ABC123''
     = Some \<lparr>u_wallet = ''ABC123'', username = None, u_karma = 101, joinedAt = 500,
             u_postCount = 1, u_commentCount = 0, lastSeen = 1000, agentsCreated = [],
             xp = 1000\<rparr>"
    by (simp add: voted_server_user)
  have 1: "posts (fst (ws_message 2000 [] ''XYZ789'' (DeletePostMsg 1) voted_server))
             = posts voted_server
      \<and> Broadcast (DeletePostEv 1)
          \<notin> set (snd (ws_message 2000 [] ''XYZ789'' (DeletePostMsg 1) voted_server))"
  proof -
    have "same_content voted_server
            (fst (ws_message 2000 [] ''XYZ789'' (DeletePostMsg 1) voted_server))
      \<and> Broadcast (DeletePostEv 1)
          \<notin> set (snd (ws_message 2000 [] ''XYZ789'' (DeletePostMsg 1) voted_server))"
      using delete_post_frame [of 1 voted_server "''XYZ789''" 2000 "[]"] other by blast
    then show ?thesis by (simp add: same_content_def)
  qed
  have 2: "ws_message 2000 [] [] (DeletePostMsg 1) voted_server = (voted_server, [])"
    using delete_post_frame [of 1 voted_server "[]" 2000 "[]"] nowallet by blast
  have "ws_message 2000 [] ''ABC123'' (DeletePostMsg 99) voted_server
          = (voted_server\<lparr>users := AList.update ''ABC123''
               (\<lparr>u_wallet = ''ABC123'', username = None, u_karma = 101, joinedAt = 500,
                 u_postCount = 1, u_commentCount = 0, lastSeen = 1000, agentsCreated = [],
                 xp = 1000\<rparr>\<lparr>lastSeen := 2000\<rparr>) (users voted_server)\<rparr>, [])"
    using delete_post_frame [of 99 voted_server "''ABC123''" 2000 "[]"] missing known by blast
  then have 3: "lastSeen (the (map_of (users (fst (ws_message 2000 [] ''ABC123''
                   (DeletePostMsg 99) voted_server))) ''ABC123'')) = 2000"
    by (simp add: update_conv')
  have 4: "posts (fst (ws_message 2000 [] ''ABC123'' (DeletePostMsg 1) voted_server)) = []
      \<and> Broadcast (DeletePostEv 1)
          \<in> set (snd (ws_message 2000 [] ''ABC123'' (DeletePostMsg 1) voted_server))"
  proof -
    have "posts (fst (ws_message 2000 [] ''ABC123'' (DeletePostMsg 1) voted_server))
            = take 0 (posts voted_server) @ drop (Suc 0) (posts voted_server)
      \<and> Broadcast (DeletePostEv 1)
          \<in> set (snd (ws_message 2000 [] ''ABC123'' (DeletePostMsg 1) voted_server))"
      using delete_post_frame [of 1 voted_server "''ABC123''" 2000 "[]"] own by blast
    then show ?thesis by (simp add: voted_server_def empty_server_def)
  qed
  show ?thesis using 1 2 3 4 by blast
qed

text \<open>
  The claim as stated fails on the user collection: a request from \<open>ABC123\<close> for a post
  id that does not exist leaves a server different from the one before.
\<close>

theorem delete_post_frame_counterexample:
  "findIndex (\<lambda>p. post_id p = 99) (posts voted_server) = None
   \<and> users (fst (ws_message 2000 [] ''ABC123'' (DeletePostMsg 99) voted_server))
       \<noteq> users voted_server"
proof -
  have missing: "\<forall>idx. findIndex (\<lambda>p. post_id p = 99) (posts voted_server) = Some idx
             \<longrightarrow> wallet (posts voted_server ! idx) \<noteq> Some ''ABC123''"
    by (simp add: voted_server_findIndex)
  have ne: "''ABC123'' \<noteq> []" by simp
  have "users (fst (ws_message 2000 [] ''ABC123'' (DeletePostMsg 99) voted_server))
          \<noteq> users voted_server"
    unfolding ws_delete_post_noop [OF missing] getUser_known [OF ne voted_server_user]
    by (simp add: voted_server_def empty_server_def)
  then show ?thesis by (simp add: voted_server_findIndex)
qed

section \<open>Agent creation: properties\<close>


















section \<open>The introduction post and the cap\<close>

text \<open>
  Wallet \<open>W1\<close> registering Bob yields the agent \<open>bob_agent\<close> and sets the timer that
  generates its introduction post.
\<close>

lemma first_bob_agent:
  "fst (createUserAgent 1000 [] ''W1'' bob_data agent_server) = CreateOk bob_agent"
  by code_simp

lemma first_bob_timer:
  "SetTimeoutIntroPost bob_agent 2000
     \<in> set (snd (snd (createUserAgent 1000 [] ''W1'' bob_data agent_server)))"
  by code_simp

lemma generateAgentIntroPost_posts:
  "posts (fst (generateAgentIntroPost agent now (LlmText txt) s))
     = intro_post agent now txt s # posts s"
  by (simp add: generateAgentIntroPost_def Let_def)

text \<open>
  Claim C7, at the failing input. The post list is at the cap of 200; the introduction
  post of the newly created agent Bob is generated. The creator puts the post in front
  and does not cut the list, which is then 201 long: the first entry is the new post and
  all 200 old entries are still there.
\<close>

theorem intro_post_exceeds_cap:
  "length (posts full_server_with_bob) = 200
   \<and> length (posts (fst (generateAgentIntroPost bob_agent 3000 (LlmText ''hello, i am Bob'')
                           full_server_with_bob))) = 201
   \<and> posts (fst (generateAgentIntroPost bob_agent 3000 (LlmText ''hello, i am Bob'')
                   full_server_with_bob))
       = intro_post bob_agent 3000 ''hello, i am Bob'' full_server_with_bob
           # posts full_server_with_bob"
proof -
  have len: "length (posts full_server_with_bob) = 200"
    by (simp add: full_server_with_bob_def full_server_def)
  show ?thesis
    unfolding generateAgentIntroPost_posts using len by simp
qed

end
